theory Spec2Isabelle
  imports Complex_Main "HOL-Library.Word"
begin

section \<open>Shared vocabulary of both servers\<close>

text \<open>
  Sockets are objects with identity; they are named by numbers and their mutable
  fields live in a store indexed by these names. Timestamps are the integers that
  \<^verbatim>\<open>Date.now()\<close> returns; one handler invocation reads one instant \<open>now\<close>.
\<close>

type_synonym sock = nat

datatype ready = CONNECTING | OPEN | CLOSING | CLOSED

datatype error =
    ROOM_FULL | ROOM_GENERATION_FAILED | ROOM_CODE_REQUIRED | ROOM_NOT_FOUND
  | ROOM_EXPIRED | INVALID_ROLE | RATE_LIMITED | NOT_IN_ROOM
  | MESSAGE_TOO_LARGE | INVALID_ROLE_MESSAGE | NOT_IN_SESSION | SESSION_NOT_FOUND
  | SyntaxError

text \<open>A JavaScript value used as a condition: \<^verbatim>\<open>undefined\<close> and the empty string are falsy.\<close>

definition falsy :: "string option \<Rightarrow> bool" where
  "falsy v = (case v of None \<Rightarrow> True | Some s \<Rightarrow> s = [])"

section \<open>Signaling server: room codes\<close>

definition BASE32_ALPHABET :: string where
  "BASE32_ALPHABET = ''ABCDEFGHJKLMNPQRSTUVWXYZ23456''"

text \<open>The four bytes of \<^verbatim>\<open>crypto.randomBytes(4)\<close>.\<close>

type_synonym bytes4 = "8 word \<times> 8 word \<times> 8 word \<times> 8 word"

fun byte_at :: "bytes4 \<Rightarrow> nat \<Rightarrow> 8 word" where
  "byte_at (b0, b1, b2, b3) i =
     (if i = 0 then b0 else if i = 1 then b1 else if i = 2 then b2 else b3)"

definition generateRoomCode :: "bytes4 \<Rightarrow> string" where
  "generateRoomCode bytes =
     map (\<lambda>i. BASE32_ALPHABET ! (unat (byte_at bytes (i mod 4)) mod length BASE32_ALPHABET))
       [0..<6]"

text \<open>The code that is made of the alphabet characters at four indices.\<close>

definition code_of :: "nat \<Rightarrow> nat \<Rightarrow> nat \<Rightarrow> nat \<Rightarrow> string" where
  "code_of a b c d = map (\<lambda>i. BASE32_ALPHABET ! i) [a, b, c, d, a, b]"

section \<open>Signaling server: rooms\<close>

datatype payload = Payload string

record turn =
  urls :: "string list"
  username :: string
  credential :: string

text \<open>
  The frames that either server hands to \<^verbatim>\<open>ws.send\<close>. A forwarded message is sent on
  verbatim, so its frame carries the payload of the message it came from.
\<close>

datatype frame =
    HelloAck string string turn
  | RoleAck string string
  | ErrorFrame error
  | Ping
  | Pong
  | SignalFrame payload
  | InputFrame payload
  | StateFrame payload
  | PlayerDisconnected "string option"

text \<open>
  A server-side socket: the fields the handlers attach to it (\<^verbatim>\<open>remoteAddress\<close>,
  \<^verbatim>\<open>role\<close>, \<^verbatim>\<open>room\<close> on the signaling server, \<^verbatim>\<open>session\<close> on the relay), its
  \<^verbatim>\<open>readyState\<close>, and a log of the calls made on it: \<open>sent\<close> lists the frames passed
  to \<^verbatim>\<open>ws.send\<close>, \<open>closes\<close> the arguments of \<^verbatim>\<open>ws.close\<close>, oldest first.
\<close>

record wsock =
  remoteAddress :: string
  role :: "string option"
  room :: "string option"
  session :: "string option"
  readyState :: ready
  sent :: "frame list"
  closes :: "(nat \<times> string) list"

definition ws_send :: "(sock \<Rightarrow> wsock) \<Rightarrow> sock \<Rightarrow> frame \<Rightarrow> (sock \<Rightarrow> wsock)" where
  "ws_send ss ws f = ss(ws := (ss ws)\<lparr>sent := sent (ss ws) @ [f]\<rparr>)"

text \<open>\<^verbatim>\<open>ws.close(code, reason)\<close> starts the closing handshake of an open socket.\<close>

definition ws_close :: "(sock \<Rightarrow> wsock) \<Rightarrow> sock \<Rightarrow> nat \<Rightarrow> string \<Rightarrow> (sock \<Rightarrow> wsock)" where
  "ws_close ss ws c reason =
     ss(ws := (ss ws)\<lparr>closes := closes (ss ws) @ [(c, reason)],
                      readyState := (if readyState (ss ws) = OPEN then CLOSING
                                     else readyState (ss ws))\<rparr>)"

record Room =
  code :: string
  host :: "sock option"
  guest :: "sock option"
  createdAt :: int
  lastActivity :: int
  heartbeatTimer :: bool

record sig_limits =
  handshakes :: "int list"
  rooms_held :: int

record sig_state =
  rooms :: "string \<rightharpoonup> Room"
  rateLimits :: "string \<rightharpoonup> sig_limits"
  socks :: "sock \<Rightarrow> wsock"

definition ROOM_TTL_IDLE :: int where "ROOM_TTL_IDLE = 2 * 60 * 1000"
definition ROOM_TTL_MAX :: int where "ROOM_TTL_MAX = 30 * 60 * 1000"

definition new_Room :: "string \<Rightarrow> int \<Rightarrow> Room" where
  "new_Room c now =
     \<lparr>code = c, host = None, guest = None, createdAt = now, lastActivity = now,
      heartbeatTimer = False\<rparr>"

definition startHeartbeat :: "Room \<Rightarrow> Room" where
  "startHeartbeat r = (if heartbeatTimer r then r else r\<lparr>heartbeatTimer := True\<rparr>)"

text \<open>
  \<^verbatim>\<open>Room.addPlayer(ws, role)\<close>: the method mutates the room and the socket; a throw
  leaves both as they were.
\<close>

definition Room_addPlayer ::
  "Room \<Rightarrow> (sock \<Rightarrow> wsock) \<Rightarrow> sock \<Rightarrow> string \<Rightarrow> int \<Rightarrow> error + (Room \<times> (sock \<Rightarrow> wsock))" where
  "Room_addPlayer r ss ws rl now =
     (if rl = ''host'' then
        (if host r \<noteq> None then Inl ROOM_FULL
         else Inr (startHeartbeat (r\<lparr>host := Some ws\<rparr>) \<lparr>lastActivity := now\<rparr>,
                   ss(ws := (ss ws)\<lparr>role := Some ''host'', room := Some (code r)\<rparr>)))
      else if rl = ''guest'' then
        (if guest r \<noteq> None then Inl ROOM_FULL
         else Inr (r\<lparr>guest := Some ws, lastActivity := now\<rparr>,
                   ss(ws := (ss ws)\<lparr>role := Some ''guest'', room := Some (code r)\<rparr>)))
      else Inr (r\<lparr>lastActivity := now\<rparr>, ss))"

definition isExpired :: "Room \<Rightarrow> int \<Rightarrow> bool" where
  "isExpired r now =
     (now - lastActivity r > ROOM_TTL_IDLE \<or> now - createdAt r > ROOM_TTL_MAX)"

definition generateTurnCredentials :: "string \<Rightarrow> string \<Rightarrow> turn" where
  "generateTurnCredentials roomCode hex =
     \<lparr>urls = [''stun:stun.l.google.com:19302'', ''stun:stun1.l.google.com:19302''],
      username = ''user_'' @ roomCode, credential = hex\<rparr>"

text \<open>
  \<^verbatim>\<open>checkRateLimit(ip)\<close> of the signaling server. The entry is created and the old
  handshakes are filtered out before either check can throw, so the state at the throw
  is returned with the error.
\<close>

definition sig_checkRateLimit ::
  "(string \<rightharpoonup> sig_limits) \<Rightarrow> string \<Rightarrow> int \<Rightarrow> (error \<times> (string \<rightharpoonup> sig_limits)) + (string \<rightharpoonup> sig_limits)" where
  "sig_checkRateLimit rl ip now =
     (let windowSize = 10 * 60 * 1000;
          limits0 = (case rl ip of None \<Rightarrow> \<lparr>handshakes = [], rooms_held = 0\<rparr> | Some l \<Rightarrow> l);
          limits = limits0\<lparr>handshakes := filter (\<lambda>time. now - time < windowSize) (handshakes limits0)\<rparr>;
          rl1 = rl(ip \<mapsto> limits)
      in if int (length (handshakes limits)) \<ge> 30 then Inl (RATE_LIMITED, rl1)
         else if rooms_held limits \<ge> 5 then Inl (RATE_LIMITED, rl1)
         else Inr (rl(ip \<mapsto> limits\<lparr>handshakes := handshakes limits @ [now]\<rparr>)))"

text \<open>
  The do-while loop of the host branch. \<open>rnd k\<close> is the result of the \<open>k\<close>-th call
  (counted from 0) of \<^verbatim>\<open>crypto.randomBytes(4)\<close> in this handler; \<open>attempts\<close> is the
  loop counter on entry to the body. The result carries the accepted code and the
  number of codes generated.
\<close>

function room_code_loop ::
  "(nat \<Rightarrow> bytes4) \<Rightarrow> (string \<rightharpoonup> Room) \<Rightarrow> nat \<Rightarrow> error + (string \<times> nat)" where
  "room_code_loop rnd rs attempts =
     (let c = generateRoomCode (rnd attempts); attempts' = attempts + 1
      in if attempts' > 10 then Inl ROOM_GENERATION_FAILED
         else if rs c \<noteq> None then room_code_loop rnd rs attempts'
         else Inr (c, attempts'))"
  by pat_completeness auto
termination
  by (relation "measure (\<lambda>(rnd, rs, attempts). 11 - attempts)") auto

declare room_code_loop.simps [simp del]

text \<open>
  The room counter of the address is incremented after \<open>sig_checkRateLimit\<close> has
  created its entry, so the entry is always there.
\<close>

definition bump_rooms :: "(string \<rightharpoonup> sig_limits) \<Rightarrow> string \<Rightarrow> (string \<rightharpoonup> sig_limits)" where
  "bump_rooms rl ip =
     (case rl ip of None \<Rightarrow> rl | Some l \<Rightarrow> rl(ip \<mapsto> l\<lparr>rooms_held := rooms_held l + 1\<rparr>))"

text \<open>
  \<^verbatim>\<open>handleHello(ws, message)\<close>. \<open>rl\<close> and \<open>roomCode\<close> are the \<^verbatim>\<open>role\<close> and \<^verbatim>\<open>room\<close>
  fields of the message, \<open>hex\<close> the credential string drawn for the acknowledgement.
  A throw returns the error together with the state reached at the throw.
\<close>

definition handleHello ::
  "sig_state \<Rightarrow> sock \<Rightarrow> string option \<Rightarrow> string option \<Rightarrow> int \<Rightarrow> (nat \<Rightarrow> bytes4) \<Rightarrow> string
     \<Rightarrow> (error \<times> sig_state) + sig_state" where
  "handleHello st ws rl roomCode now rnd hex =
     (let ip = remoteAddress (socks st ws) in
      case sig_checkRateLimit (rateLimits st) ip now of
        Inl (e, lims) \<Rightarrow> Inl (e, st\<lparr>rateLimits := lims\<rparr>)
      | Inr lims \<Rightarrow>
         (let st1 = st\<lparr>rateLimits := lims\<rparr> in
          if rl = Some ''host'' then
            (case room_code_loop rnd (rooms st1) 0 of
               Inl e \<Rightarrow> Inl (e, st1)
             | Inr (c, n) \<Rightarrow>
                (case Room_addPlayer (new_Room c now) (socks st1) ws ''host'' now of
                   Inl e \<Rightarrow> Inl (e, st1)
                 | Inr (r, ss) \<Rightarrow>
                     Inr (st1\<lparr>rooms := (rooms st1)(c \<mapsto> r),
                              rateLimits := bump_rooms lims ip,
                              socks := ws_send ss ws
                                (HelloAck c ''host'' (generateTurnCredentials c hex))\<rparr>)))
          else if rl = Some ''guest'' then
            (if falsy roomCode then Inl (ROOM_CODE_REQUIRED, st1)
             else
               (case rooms st1 (the roomCode) of
                  None \<Rightarrow> Inl (ROOM_NOT_FOUND, st1)
                | Some r0 \<Rightarrow>
                   if isExpired r0 now
                   then Inl (ROOM_EXPIRED, st1\<lparr>rooms := (rooms st1)(the roomCode := None)\<rparr>)
                   else
                     (case Room_addPlayer r0 (socks st1) ws ''guest'' now of
                        Inl e \<Rightarrow> Inl (e, st1)
                      | Inr (r, ss) \<Rightarrow>
                          Inr (st1\<lparr>rooms := (rooms st1)(the roomCode \<mapsto> r),
                                   rateLimits := bump_rooms lims ip,
                                   socks := ws_send ss ws
                                     (HelloAck (the roomCode) ''guest''
                                        (generateTurnCredentials (the roomCode) hex))\<rparr>))))
          else Inl (INVALID_ROLE, st1)))"

definition sig_sendError :: "sig_state \<Rightarrow> sock \<Rightarrow> error \<Rightarrow> sig_state" where
  "sig_sendError st ws e =
     (if readyState (socks st ws) = OPEN
      then st\<lparr>socks := ws_send (socks st) ws (ErrorFrame e)\<rparr> else st)"

text \<open>
  \<^verbatim>\<open>Room.broadcast(message, excludeWs)\<close>: the message goes to each occupant that is not
  the excluded socket and is open, the host first.
\<close>

definition broadcast ::
  "Room \<Rightarrow> (sock \<Rightarrow> wsock) \<Rightarrow> frame \<Rightarrow> sock option \<Rightarrow> (sock \<Rightarrow> wsock)" where
  "broadcast r ss f excludeWs =
     (let ss1 = (case host r of
                   Some h \<Rightarrow> if Some h \<noteq> excludeWs \<and> readyState (ss h) = OPEN
                             then ws_send ss h f else ss
                 | None \<Rightarrow> ss)
      in case guest r of
           Some g \<Rightarrow> if Some g \<noteq> excludeWs \<and> readyState (ss1 g) = OPEN
                     then ws_send ss1 g f else ss1
         | None \<Rightarrow> ss1)"

definition handleSignal :: "sig_state \<Rightarrow> sock \<Rightarrow> payload \<Rightarrow> int \<Rightarrow> (error \<times> sig_state) + sig_state" where
  "handleSignal st ws p now =
     (if falsy (room (socks st ws)) then Inl (NOT_IN_ROOM, st)
      else case rooms st (the (room (socks st ws))) of
             None \<Rightarrow> Inl (ROOM_NOT_FOUND, st)
           | Some r \<Rightarrow>
               Inr (st\<lparr>socks := broadcast r (socks st) (SignalFrame p) (Some ws),
                       rooms := (rooms st)(the (room (socks st ws)) \<mapsto> r\<lparr>lastActivity := now\<rparr>)\<rparr>))"

text \<open>
  The parsed message of the signaling protocol; \<open>None\<close> as the data of
  \<open>sig_handleMessage\<close> stands for a text that \<^verbatim>\<open>JSON.parse\<close> rejects.
\<close>

datatype sig_msg =
    Hello "string option" "string option"
  | Signal payload
  | SigPong
  | SigUnknown

definition sig_handleMessage ::
  "sig_state \<Rightarrow> sock \<Rightarrow> sig_msg option \<Rightarrow> int \<Rightarrow> (nat \<Rightarrow> bytes4) \<Rightarrow> string \<Rightarrow> sig_state" where
  "sig_handleMessage st ws data now rnd hex =
     (case data of
        None \<Rightarrow> sig_sendError st ws SyntaxError
      | Some (Hello rl roomCode) \<Rightarrow>
          (case handleHello st ws rl roomCode now rnd hex of
             Inl (e, st') \<Rightarrow> sig_sendError st' ws e
           | Inr st' \<Rightarrow> st')
      | Some (Signal p) \<Rightarrow>
          (case handleSignal st ws p now of
             Inl (e, st') \<Rightarrow> sig_sendError st' ws e
           | Inr st' \<Rightarrow> st')
      | Some SigPong \<Rightarrow>
          (if falsy (room (socks st ws)) then st
           else case rooms st (the (room (socks st ws))) of
                  None \<Rightarrow> st
                | Some r \<Rightarrow> st\<lparr>rooms := (rooms st)(the (room (socks st ws)) \<mapsto> r\<lparr>lastActivity := now\<rparr>)\<rparr>)
      | Some SigUnknown \<Rightarrow> st)"

section \<open>Relay server\<close>

definition MAX_MESSAGE_SIZE :: nat where "MAX_MESSAGE_SIZE = 8 * 1024"
definition MAX_MESSAGES_PER_SECOND :: nat where "MAX_MESSAGES_PER_SECOND = 60"

record RelaySession =
  roomCode :: string
  rhost :: "sock option"
  rguest :: "sock option"
  rcreatedAt :: int
  rlastActivity :: int
  messageCount :: nat

record relay_limits =
  messages :: "int list"
  lastReset :: int

record relay_state =
  sessions :: "string \<rightharpoonup> RelaySession"
  relayLimits :: "string \<rightharpoonup> relay_limits"
  rsocks :: "sock \<Rightarrow> wsock"

definition new_RelaySession :: "string \<Rightarrow> int \<Rightarrow> RelaySession" where
  "new_RelaySession c now =
     \<lparr>roomCode = c, rhost = None, rguest = None, rcreatedAt = now, rlastActivity = now,
      messageCount = 0\<rparr>"

text \<open>
  \<^verbatim>\<open>RelaySession.addPlayer(ws, role)\<close>: an occupied slot is closed before the new
  socket is stored in it; the socket's \<^verbatim>\<open>role\<close> and \<^verbatim>\<open>session\<close> are set in every
  case.
\<close>

definition RelaySession_addPlayer ::
  "RelaySession \<Rightarrow> (sock \<Rightarrow> wsock) \<Rightarrow> sock \<Rightarrow> string \<Rightarrow> int \<Rightarrow> RelaySession \<times> (sock \<Rightarrow> wsock)" where
  "RelaySession_addPlayer s ss ws rl now =
     (let (s1, ss1) =
        (if rl = ''host'' then
           (s\<lparr>rhost := Some ws\<rparr>,
            case rhost s of Some h \<Rightarrow> ws_close ss h 1000 ''Replaced by new host'' | None \<Rightarrow> ss)
         else if rl = ''guest'' then
           (s\<lparr>rguest := Some ws\<rparr>,
            case rguest s of Some g \<Rightarrow> ws_close ss g 1000 ''Replaced by new guest'' | None \<Rightarrow> ss)
         else (s, ss))
      in (s1\<lparr>rlastActivity := now\<rparr>,
          ss1(ws := (ss1 ws)\<lparr>role := Some rl, session := Some (roomCode s)\<rparr>)))"

text \<open>
  \<^verbatim>\<open>RelaySession.forwardMessage(fromWs, message)\<close>: the target is the guest when the
  sender is the host, the host otherwise. The boolean is the method's return value.
\<close>

definition forwardMessage ::
  "RelaySession \<Rightarrow> (sock \<Rightarrow> wsock) \<Rightarrow> sock \<Rightarrow> frame \<Rightarrow> int \<Rightarrow> bool \<times> RelaySession \<times> (sock \<Rightarrow> wsock)" where
  "forwardMessage s ss fromWs f now =
     (let targetWs = (if Some fromWs = rhost s then rguest s else rhost s)
      in case targetWs of
           None \<Rightarrow> (False, s, ss)
         | Some t \<Rightarrow>
             if readyState (ss t) = OPEN
             then (True, s\<lparr>messageCount := messageCount s + 1, rlastActivity := now\<rparr>, ws_send ss t f)
             else (False, s, ss))"

text \<open>
  \<^verbatim>\<open>checkRateLimit(ws)\<close> of the relay: the entry of the address is created if absent,
  emptied when a second has passed since its last reset, and then either full (throw)
  or extended by \<open>now\<close>.
\<close>

definition relay_checkRateLimit ::
  "(string \<rightharpoonup> relay_limits) \<Rightarrow> string \<Rightarrow> int
     \<Rightarrow> (error \<times> (string \<rightharpoonup> relay_limits)) + (string \<rightharpoonup> relay_limits)" where
  "relay_checkRateLimit rl ip now =
     (let limits0 = (case rl ip of None \<Rightarrow> \<lparr>messages = [], lastReset = now\<rparr> | Some l \<Rightarrow> l);
          limits = (if now - lastReset limits0 \<ge> 1000
                    then limits0\<lparr>messages := [], lastReset := now\<rparr> else limits0)
      in if length (messages limits) \<ge> MAX_MESSAGES_PER_SECOND
         then Inl (RATE_LIMITED, rl(ip \<mapsto> limits))
         else Inr (rl(ip \<mapsto> limits\<lparr>messages := messages limits @ [now]\<rparr>)))"

text \<open>
  The parsed message of the relay protocol. The \<^verbatim>\<open>role\<close> and \<^verbatim>\<open>room\<close> fields of a
  role message may be missing. The data of a frame is its length together with what
  \<^verbatim>\<open>JSON.parse\<close> makes of it, \<open>None\<close> when the parser throws.
\<close>

datatype relay_msg =
    RoleMsg "string option" "string option"
  | InputMsg payload
  | StateMsg payload
  | PingMsg
  | RelayUnknown

record data =
  len :: nat
  parsed :: "relay_msg option"

definition handleRoleMessage ::
  "relay_state \<Rightarrow> sock \<Rightarrow> string option \<Rightarrow> string option \<Rightarrow> int \<Rightarrow> (error \<times> relay_state) + relay_state" where
  "handleRoleMessage st ws rl rm now =
     (if falsy rl \<or> falsy rm then Inl (INVALID_ROLE_MESSAGE, st)
      else if the rl \<noteq> ''host'' \<and> the rl \<noteq> ''guest'' then Inl (INVALID_ROLE, st)
      else
        (let s0 = (case sessions st (the rm) of
                     None \<Rightarrow> new_RelaySession (the rm) now | Some s \<Rightarrow> s);
             (s1, ss1) = RelaySession_addPlayer s0 (rsocks st) ws (the rl) now
         in Inr (st\<lparr>sessions := (sessions st)(the rm \<mapsto> s1),
                    rsocks := ws_send ss1 ws (RoleAck (the rl) (the rm))\<rparr>)))"

definition handleInputMessage ::
  "relay_state \<Rightarrow> sock \<Rightarrow> payload \<Rightarrow> int \<Rightarrow> (error \<times> relay_state) + relay_state" where
  "handleInputMessage st ws p now =
     (if falsy (session (rsocks st ws)) then Inl (NOT_IN_SESSION, st)
      else case sessions st (the (session (rsocks st ws))) of
             None \<Rightarrow> Inl (SESSION_NOT_FOUND, st)
           | Some s \<Rightarrow>
               if role (rsocks st ws) \<noteq> Some ''guest'' then Inr st
               else
                 (let (forwarded, s1, ss1) = forwardMessage s (rsocks st) ws (InputFrame p) now
                  in Inr (st\<lparr>sessions := (sessions st)(the (session (rsocks st ws)) \<mapsto> s1),
                             rsocks := ss1\<rparr>)))"

definition handleStateMessage ::
  "relay_state \<Rightarrow> sock \<Rightarrow> payload \<Rightarrow> int \<Rightarrow> (error \<times> relay_state) + relay_state" where
  "handleStateMessage st ws p now =
     (if falsy (session (rsocks st ws)) then Inl (NOT_IN_SESSION, st)
      else case sessions st (the (session (rsocks st ws))) of
             None \<Rightarrow> Inl (SESSION_NOT_FOUND, st)
           | Some s \<Rightarrow>
               if role (rsocks st ws) \<noteq> Some ''host'' then Inr st
               else
                 (let (forwarded, s1, ss1) = forwardMessage s (rsocks st) ws (StateFrame p) now
                  in Inr (st\<lparr>sessions := (sessions st)(the (session (rsocks st ws)) \<mapsto> s1),
                             rsocks := ss1\<rparr>)))"

definition handlePingMessage :: "relay_state \<Rightarrow> sock \<Rightarrow> int \<Rightarrow> relay_state" where
  "handlePingMessage st ws now =
     (let st1 = st\<lparr>rsocks := ws_send (rsocks st) ws Pong\<rparr>
      in if falsy (session (rsocks st ws)) then st1
         else case sessions st (the (session (rsocks st ws))) of
                None \<Rightarrow> st1
              | Some s \<Rightarrow>
                  st1\<lparr>sessions := (sessions st)(the (session (rsocks st ws)) \<mapsto> s\<lparr>rlastActivity := now\<rparr>)\<rparr>)"

definition relay_sendError :: "relay_state \<Rightarrow> sock \<Rightarrow> error \<Rightarrow> relay_state" where
  "relay_sendError st ws e =
     (if readyState (rsocks st ws) = OPEN
      then st\<lparr>rsocks := ws_send (rsocks st) ws (ErrorFrame e)\<rparr> else st)"

text \<open>
  The body of the \<^verbatim>\<open>try\<close> block of the relay's \<^verbatim>\<open>handleMessage(ws, data)\<close>: size
  check, rate limit, parsing, dispatch. A throw returns the error with the state
  reached at the throw.
\<close>

definition relay_try ::
  "relay_state \<Rightarrow> sock \<Rightarrow> data \<Rightarrow> int \<Rightarrow> (error \<times> relay_state) + relay_state" where
  "relay_try st ws d now =
     (if len d > MAX_MESSAGE_SIZE then Inl (MESSAGE_TOO_LARGE, st)
      else case relay_checkRateLimit (relayLimits st) (remoteAddress (rsocks st ws)) now of
             Inl (e, lims) \<Rightarrow> Inl (e, st\<lparr>relayLimits := lims\<rparr>)
           | Inr lims \<Rightarrow>
               (let st1 = st\<lparr>relayLimits := lims\<rparr>
                in case parsed d of
                     None \<Rightarrow> Inl (SyntaxError, st1)
                   | Some (RoleMsg rl rm) \<Rightarrow> handleRoleMessage st1 ws rl rm now
                   | Some (InputMsg p) \<Rightarrow> handleInputMessage st1 ws p now
                   | Some (StateMsg p) \<Rightarrow> handleStateMessage st1 ws p now
                   | Some PingMsg \<Rightarrow> Inr (handlePingMessage st1 ws now)
                   | Some RelayUnknown \<Rightarrow> Inr st1))"

text \<open>\<^verbatim>\<open>handleMessage\<close>: the \<^verbatim>\<open>catch\<close> clause answers a throw with an error frame.\<close>

definition relay_handleMessage :: "relay_state \<Rightarrow> sock \<Rightarrow> data \<Rightarrow> int \<Rightarrow> relay_state" where
  "relay_handleMessage st ws d now =
     (case relay_try st ws d now of
        Inl (e, st') \<Rightarrow> relay_sendError st' ws e
      | Inr st' \<Rightarrow> st')"

text \<open>
  The server handles one message to completion before the next; a run of the server
  over a list of arrivals (socket, data, time of arrival) is the fold of the handler.
\<close>

fun relay_run :: "relay_state \<Rightarrow> (sock \<times> data \<times> int) list \<Rightarrow> relay_state" where
  "relay_run st [] = st"
| "relay_run st ((ws, d, now) # evs) = relay_run (relay_handleMessage st ws d now) evs"

text \<open>\<^verbatim>\<open>RelaySession.removePlayer(ws)\<close>: the slot that holds the socket is emptied.\<close>

definition RelaySession_removePlayer :: "RelaySession \<Rightarrow> sock \<Rightarrow> int \<Rightarrow> RelaySession" where
  "RelaySession_removePlayer s ws now =
     (if rhost s = Some ws then s\<lparr>rhost := None\<rparr>
      else if rguest s = Some ws then s\<lparr>rguest := None\<rparr>
      else s)\<lparr>rlastActivity := now\<rparr>"

text \<open>
  The listener of a socket's \<^verbatim>\<open>close\<close> event, which the library emits once the socket
  is closed, also for a socket the server closed itself: the socket leaves the session it
  names, and the other occupant, looked up after the removal, is notified if open.
\<close>

definition relay_onClose :: "relay_state \<Rightarrow> sock \<Rightarrow> int \<Rightarrow> relay_state" where
  "relay_onClose st ws now =
     (let ss = (rsocks st)(ws := (rsocks st ws)\<lparr>readyState := CLOSED\<rparr>)
      in if falsy (session (rsocks st ws)) then st\<lparr>rsocks := ss\<rparr>
         else case sessions st (the (session (rsocks st ws))) of
                None \<Rightarrow> st\<lparr>rsocks := ss\<rparr>
              | Some s \<Rightarrow>
                  (let s1 = RelaySession_removePlayer s ws now;
                       otherWs = (if Some ws = rhost s1 then rguest s1 else rhost s1)
                   in st\<lparr>sessions := (sessions st)(the (session (rsocks st ws)) \<mapsto> s1),
                         rsocks := (case otherWs of
                                      None \<Rightarrow> ss
                                    | Some ow \<Rightarrow>
                                        if readyState (ss ow) = OPEN
                                        then ws_send ss ow (PlayerDisconnected (role (rsocks st ws)))
                                        else ss)\<rparr>))"

text \<open>
  What the \<^verbatim>\<open>try\<close> block made of each message of a run: the error that reached the
  \<^verbatim>\<open>catch\<close> clause, or \<open>None\<close> when the handler returned.
\<close>

fun relay_outcomes :: "relay_state \<Rightarrow> (sock \<times> data \<times> int) list \<Rightarrow> error option list" where
  "relay_outcomes st [] = []"
| "relay_outcomes st ((ws, d, now) # evs) =
     (case relay_try st ws d now of Inl (e, st') \<Rightarrow> Some e | Inr st' \<Rightarrow> None)
       # relay_outcomes (relay_handleMessage st ws d now) evs"

text \<open>The errors that the handlers behind the rate limit can throw.\<close>

definition dispatch_errors :: "error set" where
  "dispatch_errors =
     {SyntaxError, INVALID_ROLE_MESSAGE, INVALID_ROLE, NOT_IN_SESSION, SESSION_NOT_FOUND}"

section \<open>Client: shared game state\<close>

text \<open>
  The part of the reducer state of \<^verbatim>\<open>GameStateContext\<close> that the networking hooks read
  and write, the refs of the three hooks \<^verbatim>\<open>useWebRTC\<close>, \<^verbatim>\<open>useRelay\<close> and
  \<^verbatim>\<open>useNetworking\<close>, and logs of what was sent on either transport. Timers are kept
  with their delay in milliseconds; their callbacks are functions of the state that an
  event applies when the timer fires.
\<close>

datatype transport = WebRTC | Relay

datatype game_phase = PhaseLobby | PhaseConnecting | PhaseFighting | PhasePostMatch | PhaseError

datatype ice = IceNew | IceChecking | IceConnected | IceCompleted | IceFailed | IceDisconnected | IceClosed

datatype channel_state = ChanConnecting | ChanOpen | ChanClosing | ChanClosed

text \<open>A game message: its sequence number, its timestamp and its payload.\<close>

datatype game_msg = StateMessage nat int payload | InputMessage nat int payload

text \<open>
  The values of \<^verbatim>\<open>role\<close>, \<^verbatim>\<open>roomCode\<close> and \<^verbatim>\<open>connectionType\<close> in the render
  that created a callback: a callback reads these, whatever the state has become.
\<close>

record render =
  r_role :: "string option"
  r_roomCode :: "string option"
  r_connectionType :: "transport option"

record client =
  gameState :: game_phase
  g_role :: "string option"
  g_roomCode :: "string option"
  isConnected :: bool
  connectionType :: "transport option"
  g_error :: "string option"
  pcRef :: bool
  dataChannelRef :: "channel_state option"
  stabilityTimer :: "nat option"
  rtcLog :: "game_msg list"
  wsRef :: "ready option"
  reconnectAttempts :: nat
  reconnectTimer :: "real option"
  heartbeat :: bool
  relaySockets :: nat
  relayCloses :: nat
  relayLog :: "game_msg list"
  webrtcTimeoutRef :: "nat option"
  timeouts :: "(nat \<times> nat \<times> render) list"
  nextTimer :: nat
  sequenceRef :: nat
  lastSnapshotRef :: int
  lastInputRef :: int


definition connectionEstablished :: "transport \<Rightarrow> client \<Rightarrow> client" where
  "connectionEstablished t c =
     c\<lparr>isConnected := True, connectionType := Some t, gameState := PhaseFighting\<rparr>"

definition connectionLost :: "client \<Rightarrow> client" where
  "connectionLost c = c\<lparr>isConnected := False, connectionType := None\<rparr>"


section \<open>Client: the WebRTC hook\<close>

definition RECONNECT_TIMEOUT :: nat where "RECONNECT_TIMEOUT = 5000"

text \<open>
  \<^verbatim>\<open>pc.oniceconnectionstatechange\<close>, for the state the connection has reached. On
  \<^verbatim>\<open>connected\<close> or \<^verbatim>\<open>completed\<close> the stability timer is set anew.
\<close>

definition oniceconnectionstatechange :: "ice \<Rightarrow> client \<Rightarrow> client" where
  "oniceconnectionstatechange s c =
     (if s = IceConnected \<or> s = IceCompleted
      then (connectionEstablished WebRTC c)\<lparr>stabilityTimer := Some RECONNECT_TIMEOUT\<rparr>
      else if s = IceFailed \<or> s = IceDisconnected
      then (connectionLost c)\<lparr>stabilityTimer := None\<rparr>
      else c)"

text \<open>
  The callback of the stability timer. Its body in the source holds two comments and no
  statement, so firing it changes nothing.
\<close>

definition stability_timer_callback :: "client \<Rightarrow> client" where
  "stability_timer_callback c = c"




text \<open>\<^verbatim>\<open>webrtc.sendGameMessage\<close>: the boolean is the value returned.\<close>

definition webrtc_sendGameMessage :: "game_msg \<Rightarrow> client \<Rightarrow> bool \<times> client" where
  "webrtc_sendGameMessage m c =
     (if dataChannelRef c = Some ChanOpen then (True, c\<lparr>rtcLog := rtcLog c @ [m]\<rparr>)
      else (False, c))"

definition webrtc_close :: "client \<Rightarrow> client" where
  "webrtc_close c = c\<lparr>stabilityTimer := None, dataChannelRef := None, pcRef := False\<rparr>"



section \<open>Client: the relay hook\<close>

definition RECONNECT_DELAY_BASE :: real where "RECONNECT_DELAY_BASE = 1000"
definition MAX_RECONNECT_DELAY :: real where "MAX_RECONNECT_DELAY = 30000"

text \<open>
  \<^verbatim>\<open>calculateBackoffDelay\<close>, for the value of the attempt counter and the number that
  \<^verbatim>\<open>Math.random()\<close> returns.
\<close>

definition calculateBackoffDelay :: "nat \<Rightarrow> real \<Rightarrow> real" where
  "calculateBackoffDelay attempts rand =
     min (RECONNECT_DELAY_BASE * 2 ^ attempts) MAX_RECONNECT_DELAY + rand * 1000"

text \<open>
  The synchronous part of \<^verbatim>\<open>connect(role, roomCode)\<close>: nothing happens when a
  parameter is missing (the promise is rejected) or the socket in \<^verbatim>\<open>wsRef\<close> is open
  (the promise is resolved); otherwise a new socket replaces the one in \<^verbatim>\<open>wsRef\<close>.
\<close>

definition relay_connect :: "string option \<Rightarrow> string option \<Rightarrow> client \<Rightarrow> client" where
  "relay_connect rl rc c =
     (if falsy rl \<or> falsy rc then c
      else if wsRef c = Some OPEN then c
      else c\<lparr>wsRef := Some CONNECTING, relaySockets := relaySockets c + 1\<rparr>)"


text \<open>\<^verbatim>\<open>ws.onclose\<close>, with the number drawn for the jitter.\<close>

definition relay_ws_onclose :: "real \<Rightarrow> client \<Rightarrow> client" where
  "relay_ws_onclose rand c =
     (connectionLost (c\<lparr>heartbeat := False\<rparr>))
       \<lparr>wsRef := None,
        reconnectTimer := Some (calculateBackoffDelay (reconnectAttempts c) rand),
        reconnectAttempts := reconnectAttempts c + 1\<rparr>"




definition relay_sendGameMessage :: "game_msg \<Rightarrow> client \<Rightarrow> bool \<times> client" where
  "relay_sendGameMessage m c =
     (if wsRef c = Some OPEN then (True, c\<lparr>relayLog := relayLog c @ [m]\<rparr>) else (False, c))"

text \<open>\<^verbatim>\<open>disconnect\<close>: the only statement of the client that closes a relay socket it uses.\<close>

definition relay_disconnect :: "client \<Rightarrow> client" where
  "relay_disconnect c =
     c\<lparr>reconnectTimer := None, heartbeat := False,
       relayCloses := (if wsRef c \<noteq> None then relayCloses c + 1 else relayCloses c),
       wsRef := None, reconnectAttempts := 0\<rparr>"

section \<open>Client: the networking hook\<close>

definition SNAPSHOT_RATE :: int where "SNAPSHOT_RATE = 100"
definition INPUT_RATE :: int where "INPUT_RATE = 33"

text \<open>
  \<^verbatim>\<open>initiateRelayFallback\<close> up to its call of \<^verbatim>\<open>relay.connect\<close>, with the values
  its render gave it.
\<close>

definition initiateRelayFallback :: "render \<Rightarrow> client \<Rightarrow> client" where
  "initiateRelayFallback rv c =
     (if r_connectionType rv = Some Relay then c
      else if falsy (r_role rv) \<or> falsy (r_roomCode rv) then c
      else relay_connect (r_role rv) (r_roomCode rv) c)"


definition clear_timeout :: "nat \<Rightarrow> client \<Rightarrow> client" where
  "clear_timeout n c = c\<lparr>timeouts := filter (\<lambda>(i, d, rv). i \<noteq> n) (timeouts c)\<rparr>"





text \<open>
  \<^verbatim>\<open>sendSnapshot\<close> and \<^verbatim>\<open>sendInput\<close>: the data channel is tried first and the relay
  socket only if the data channel did not take the message.
\<close>

definition sendSnapshot :: "render \<Rightarrow> payload \<Rightarrow> int \<Rightarrow> client \<Rightarrow> client" where
  "sendSnapshot rv p now c =
     (if r_role rv \<noteq> Some ''host'' then c
      else if now - lastSnapshotRef c < SNAPSHOT_RATE then c
      else
        (let c1 = c\<lparr>sequenceRef := sequenceRef c + 1\<rparr>;
             m = StateMessage (sequenceRef c1) now p;
             (taken, c2) = webrtc_sendGameMessage m c1;
             c3 = (if taken then c2 else snd (relay_sendGameMessage m c2))
         in c3\<lparr>lastSnapshotRef := now\<rparr>))"

definition sendInput :: "render \<Rightarrow> payload \<Rightarrow> int \<Rightarrow> client \<Rightarrow> client" where
  "sendInput rv p now c =
     (if r_role rv \<noteq> Some ''guest'' then c
      else if now - lastInputRef c < INPUT_RATE then c
      else
        (let c1 = c\<lparr>sequenceRef := sequenceRef c + 1\<rparr>;
             m = InputMessage (sequenceRef c1) now p;
             (taken, c2) = webrtc_sendGameMessage m c1;
             c3 = (if taken then c2 else snd (relay_sendGameMessage m c2))
         in c3\<lparr>lastInputRef := now\<rparr>))"

text \<open>
  The effect on \<^verbatim>\<open>connectionType\<close>, \<^verbatim>\<open>role\<close> and \<^verbatim>\<open>roomCode\<close>, run with the values
  of its render.
\<close>

definition connection_effect :: "render \<Rightarrow> client \<Rightarrow> client" where
  "connection_effect rv c =
     (if r_connectionType rv = Some WebRTC \<and> webrtcTimeoutRef c \<noteq> None
      then (clear_timeout (the (webrtcTimeoutRef c)) c)\<lparr>webrtcTimeoutRef := None\<rparr>
      else if r_connectionType rv = None \<and> \<not> falsy (r_role rv) \<and> \<not> falsy (r_roomCode rv)
      then initiateRelayFallback rv c
      else c)"

text \<open>
  The cleanup of the networking hook: the timer in the ref is cleared, the WebRTC
  connection is closed and the relay is disconnected.
\<close>

definition net_cleanup :: "client \<Rightarrow> client" where
  "net_cleanup c =
     relay_disconnect (webrtc_close
       (case webrtcTimeoutRef c of None \<Rightarrow> c | Some n \<Rightarrow> clear_timeout n c))"


section \<open>Concrete states and inputs\<close>

definition fresh_sock :: wsock where
  "fresh_sock =
     \<lparr>remoteAddress = ''10.0.0.1'', role = None, room = None, session = None,
      readyState = OPEN, sent = [], closes = []\<rparr>"

text \<open>A signaling server that has just started, every socket freshly connected.\<close>

definition sig_init :: sig_state where
  "sig_init = \<lparr>rooms = Map.empty, rateLimits = Map.empty, socks = (\<lambda>ws. fresh_sock)\<rparr>"

text \<open>Random sources that always draw the same four bytes.\<close>

definition rnd_A :: "nat \<Rightarrow> bytes4" where
  "rnd_A k = (0, 0, 0, 0)"

definition rnd_B :: "nat \<Rightarrow> bytes4" where
  "rnd_B k = (1, 1, 1, 1)"

text \<open>The signaling server after socket 2 has created a room, which gets the code AAAAAA.\<close>

definition sig_hosted :: sig_state where
  "sig_hosted = sig_handleMessage sig_init 2 (Some (Hello (Some ''host'') None)) 0 rnd_A []"

text \<open>The same server after socket 3 has joined room AAAAAA as its guest.\<close>

definition sig_paired :: sig_state where
  "sig_paired =
     sig_handleMessage sig_hosted 3 (Some (Hello (Some ''guest'') (Some ''AAAAAA''))) 10 rnd_A []"

text \<open>A relay server that has just started.\<close>

definition relay_init :: relay_state where
  "relay_init = \<lparr>sessions = Map.empty, relayLimits = Map.empty, rsocks = (\<lambda>ws. fresh_sock)\<rparr>"

definition role_data :: "string \<Rightarrow> string \<Rightarrow> data" where
  "role_data rl rm = \<lparr>len = 40, parsed = Some (RoleMsg (Some rl) (Some rm))\<rparr>"

definition input_data :: data where
  "input_data = \<lparr>len = 60, parsed = Some (InputMsg (Payload ''left''))\<rparr>"

definition ping_data :: data where
  "ping_data = \<lparr>len = 15, parsed = Some PingMsg\<rparr>"

text \<open>The relay after socket 2 has taken the host slot of session AAAAAA.\<close>

definition relay_hosted :: relay_state where
  "relay_hosted = relay_handleMessage relay_init 2 (role_data ''host'' ''AAAAAA'') 0"

text \<open>The same relay after socket 3 has taken the guest slot.\<close>

definition relay_paired :: relay_state where
  "relay_paired = relay_handleMessage relay_hosted 3 (role_data ''guest'' ''AAAAAA'') 10"

text \<open>A run in which socket 2 takes a host slot and socket 4 only pings.\<close>

definition ping_run :: "(sock \<times> data \<times> int) list" where
  "ping_run = [(2, role_data ''host'' ''AAAAAA'', 0), (4, ping_data, 5)]"

text \<open>The relay after socket 3 alone has taken the guest slot of session AAAAAA.\<close>

definition relay_guest_only :: relay_state where
  "relay_guest_only = relay_handleMessage relay_init 3 (role_data ''guest'' ''AAAAAA'') 0"

text \<open>The relay after one ping of socket 2 at time 0.\<close>

definition relay_pinged :: relay_state where
  "relay_pinged = relay_handleMessage relay_init 2 ping_data 0"

text \<open>
  Sixty-one pings of socket 2 within half a second: thirty at time 500 and thirty-one
  at time 1000.
\<close>

definition burst :: "(sock \<times> data \<times> int) list" where
  "burst = replicate 30 (2, ping_data, 500) @ replicate 31 (2, ping_data, 1000)"

text \<open>Sixty pings of socket 2, the first at time 0 and the others at time 500.\<close>

definition sixty_pings :: "(sock \<times> data \<times> int) list" where
  "sixty_pings = (2, ping_data, 0) # replicate 59 (2, ping_data, 500)"


text \<open>
  The relay after socket 2, the host of session AAAAAA, has also taken its guest slot
  and socket 5 has then replaced it there: socket 2 still holds the host slot, its
  recorded role is guest, and it is closing.
\<close>

definition relay_swapped :: relay_state where
  "relay_swapped =
     relay_handleMessage (relay_handleMessage relay_hosted 2 (role_data ''guest'' ''AAAAAA'') 10)
       5 (role_data ''guest'' ''AAAAAA'') 20"









section \<open>Properties of the room codes\<close>

lemma upt_0_6: "[0..<6] = [0, 1, 2, 3, 4, 5::nat]"
  by (simp add: upt_rec)

lemma alphabet_length: "length BASE32_ALPHABET = 29"
  by (simp add: BASE32_ALPHABET_def)



lemma generateRoomCode_code_of:
  "generateRoomCode (b0, b1, b2, b3) =
     code_of (unat b0 mod 29) (unat b1 mod 29) (unat b2 mod 29) (unat b3 mod 29)"
  by (simp add: generateRoomCode_def upt_0_6 code_of_def alphabet_length)

lemma range_generateRoomCode:
  "range generateRoomCode \<subseteq>
     (\<lambda>(a, b, c, d). code_of a b c d) ` ({..<29} \<times> {..<29} \<times> {..<29} \<times> {..<29})"
proof
  fix x assume "x \<in> range generateRoomCode"
  then obtain b0 b1 b2 b3 where x: "x = generateRoomCode (b0, b1, b2, b3)"
    by (metis prod_cases4 rangeE)
  have "(unat b0 mod 29, unat b1 mod 29, unat b2 mod 29, unat b3 mod 29)
          \<in> {..<29} \<times> {..<29} \<times> {..<29} \<times> {..<29}" by simp
  then show "x \<in> (\<lambda>(a, b, c, d). code_of a b c d) ` ({..<29} \<times> {..<29} \<times> {..<29} \<times> {..<29})"
    unfolding x generateRoomCode_code_of by (rule rev_image_eqI) simp
qed

text \<open>
  C10: in every code that \<open>generateRoomCode\<close> returns, the character at position 4 is
  the character at position 0 and the character at position 5 is the character at
  position 1, since the six positions read four bytes modulo 4; so the function has at
  most \<open>29 ^ 4\<close> values.
\<close>

theorem generateRoomCode_repeats:
  "generateRoomCode bytes ! 4 = generateRoomCode bytes ! 0
   \<and> generateRoomCode bytes ! 5 = generateRoomCode bytes ! 1
   \<and> finite (range generateRoomCode)
   \<and> card (range generateRoomCode) \<le> 29 ^ 4"
proof -
  obtain b0 b1 b2 b3 where b: "bytes = (b0, b1, b2, b3)" by (cases bytes) auto
  let ?D = "{..<29::nat} \<times> {..<29::nat} \<times> {..<29::nat} \<times> {..<29::nat}"
  have fin: "finite ?D" by simp
  have cD: "card ?D = 29 ^ 4" by (simp add: card_cartesian_product)
  have f: "finite (range generateRoomCode)"
    using range_generateRoomCode fin by (meson finite_imageI finite_subset)
  have "card (range generateRoomCode) \<le> card ((\<lambda>(a, b, c, d). code_of a b c d) ` ?D)"
    by (rule card_mono) (use fin range_generateRoomCode in auto)
  also have "\<dots> \<le> card ?D" by (rule card_image_le) (rule fin)
  finally have c: "card (range generateRoomCode) \<le> 29 ^ 4" using cD by simp
  show ?thesis using f c by (simp add: b generateRoomCode_code_of code_of_def)
qed

lemma generateRoomCode_A: "generateRoomCode (0, 0, 0, 0) = ''AAAAAA''"
  by (simp add: generateRoomCode_def upt_0_6 BASE32_ALPHABET_def)

lemma generateRoomCode_B: "generateRoomCode (1, 1, 1, 1) = ''BBBBBB''"
  by (simp add: generateRoomCode_def upt_0_6 BASE32_ALPHABET_def)


section \<open>Properties of the signaling server\<close>

subsection \<open>The retry loop\<close>

lemma room_code_loop_Inr:
  "room_code_loop rnd rs a = Inr (c, n) \<Longrightarrow>
     a < n \<and> n \<le> 10 \<and> c = generateRoomCode (rnd (n - 1)) \<and> rs c = None
     \<and> (\<forall>j. a \<le> j \<and> j < n - 1 \<longrightarrow> rs (generateRoomCode (rnd j)) \<noteq> None)"
proof (induction rnd rs a rule: room_code_loop.induct)
  case (1 rnd rs attempts)
  show ?case
  proof (cases "rs (generateRoomCode (rnd attempts)) \<noteq> None")
    case True
    with "1.prems" have lt: "attempts + 1 \<le> 10"
      and rec: "room_code_loop rnd rs (attempts + 1) = Inr (c, n)"
      by (auto simp: room_code_loop.simps [of rnd rs attempts] Let_def split: if_splits)
    from "1.IH" [OF refl refl _ True rec] lt
    have ih: "attempts + 1 < n \<and> n \<le> 10 \<and> c = generateRoomCode (rnd (n - 1)) \<and> rs c = None
       \<and> (\<forall>j. attempts + 1 \<le> j \<and> j < n - 1 \<longrightarrow> rs (generateRoomCode (rnd j)) \<noteq> None)"
      by auto
    have coll: "rs (generateRoomCode (rnd j)) \<noteq> None" if "attempts \<le> j" "j < n - 1" for j
    proof (cases "j = attempts")
      case True
      then show ?thesis using \<open>rs (generateRoomCode (rnd attempts)) \<noteq> None\<close> by simp
    next
      case False
      then show ?thesis using ih that by simp
    qed
    have "attempts < n" using ih by simp
    moreover have "n \<le> 10" using ih by simp
    moreover have "c = generateRoomCode (rnd (n - 1))" using ih by blast
    moreover have "rs c = None" using ih by blast
    ultimately show ?thesis using coll by blast
  next
    case False
    with "1.prems" show ?thesis
      by (auto simp: room_code_loop.simps [of rnd rs attempts] Let_def split: if_splits)
  qed
qed

lemma room_code_loop_Inl:
  "room_code_loop rnd rs a = Inl e \<Longrightarrow>
     e = ROOM_GENERATION_FAILED
     \<and> (\<forall>j. a \<le> j \<and> j < 10 \<longrightarrow> rs (generateRoomCode (rnd j)) \<noteq> None)"
proof (induction rnd rs a rule: room_code_loop.induct)
  case (1 rnd rs attempts)
  show ?case
  proof (cases "attempts + 1 > 10")
    case True
    with "1.prems" show ?thesis
      by (auto simp: room_code_loop.simps [of rnd rs attempts] Let_def split: if_splits)
  next
    case False
    with "1.prems" have col: "rs (generateRoomCode (rnd attempts)) \<noteq> None"
      and rec: "room_code_loop rnd rs (attempts + 1) = Inl e"
      by (auto simp: room_code_loop.simps [of rnd rs attempts] Let_def split: if_splits)
    from "1.IH" [OF refl refl _ col rec] False
    have ih: "e = ROOM_GENERATION_FAILED
       \<and> (\<forall>j. attempts + 1 \<le> j \<and> j < 10 \<longrightarrow> rs (generateRoomCode (rnd j)) \<noteq> None)"
      by auto
    have coll: "rs (generateRoomCode (rnd j)) \<noteq> None" if "attempts \<le> j" "j < 10" for j
    proof (cases "j = attempts")
      case True
      then show ?thesis using col by simp
    next
      case False
      then show ?thesis using ih that by simp
    qed
    have "e = ROOM_GENERATION_FAILED" using ih by blast
    then show ?thesis using coll by blast
  qed
qed


lemma handleHello_host_cases:
  assumes "sig_checkRateLimit (rateLimits st) (remoteAddress (socks st ws)) now = Inr lims"
  shows "handleHello st ws (Some ''host'') rc now rnd hex =
     (case room_code_loop rnd (rooms st) 0 of
        Inl e \<Rightarrow> Inl (e, st\<lparr>rateLimits := lims\<rparr>)
      | Inr (c, n) \<Rightarrow>
          Inr (st\<lparr>rooms := (rooms st)(c \<mapsto> (new_Room c now)\<lparr>host := Some ws, heartbeatTimer := True\<rparr>),
                  rateLimits := bump_rooms lims (remoteAddress (socks st ws)),
                  socks := ws_send ((socks st)(ws := (socks st ws)\<lparr>role := Some ''host'', room := Some c\<rparr>)) ws
                     (HelloAck c ''host'' (generateTurnCredentials c hex))\<rparr>))"
  using assms
  by (simp add: handleHello_def Let_def Room_addPlayer_def new_Room_def startHeartbeat_def
      split: sum.splits prod.splits)

lemma handleHello_limited:
  assumes "sig_checkRateLimit (rateLimits st) (remoteAddress (socks st ws)) now = Inl (e, lims)"
  shows "handleHello st ws rl rc now rnd hex = Inl (e, st\<lparr>rateLimits := lims\<rparr>)"
  using assms by (simp add: handleHello_def Let_def)

lemma sig_checkRateLimit_Inl:
  "sig_checkRateLimit rl ip now = Inl (e, lims) \<Longrightarrow> e = RATE_LIMITED"
  by (auto simp: sig_checkRateLimit_def Let_def split: if_splits)

lemma handleHello_init_host:
  "handleHello sig_init 2 (Some ''host'') None 0 rnd_A [] =
     Inr \<lparr>rooms = [''AAAAAA'' \<mapsto> \<lparr>code = ''AAAAAA'', host = Some 2, guest = None, createdAt = 0,
                lastActivity = 0, heartbeatTimer = True\<rparr>],
          rateLimits = [''10.0.0.1'' \<mapsto> \<lparr>handshakes = [0], rooms_held = 1\<rparr>],
          socks = (\<lambda>ws. fresh_sock)
            (2 := fresh_sock\<lparr>role := Some ''host'', room := Some ''AAAAAA'',
                   sent := [HelloAck ''AAAAAA'' ''host'' (generateTurnCredentials ''AAAAAA'' [])]\<rparr>)\<rparr>"
  by (simp add: handleHello_def sig_checkRateLimit_def Let_def sig_init_def fresh_sock_def
      room_code_loop.simps [of _ _ 0] rnd_A_def generateRoomCode_A Room_addPlayer_def
      new_Room_def startHeartbeat_def bump_rooms_def ws_send_def)

lemma sig_hosted_eq:
  "sig_hosted =
     \<lparr>rooms = [''AAAAAA'' \<mapsto> \<lparr>code = ''AAAAAA'', host = Some 2, guest = None, createdAt = 0,
                lastActivity = 0, heartbeatTimer = True\<rparr>],
      rateLimits = [''10.0.0.1'' \<mapsto> \<lparr>handshakes = [0], rooms_held = 1\<rparr>],
      socks = (\<lambda>ws. fresh_sock)
            (2 := fresh_sock\<lparr>role := Some ''host'', room := Some ''AAAAAA'',
                   sent := [HelloAck ''AAAAAA'' ''host'' (generateTurnCredentials ''AAAAAA'' [])]\<rparr>)\<rparr>"
  by (simp add: sig_hosted_def sig_handleMessage_def handleHello_init_host)





subsection \<open>Occupied slots\<close>

lemma handleHello_host_not_full:
  "handleHello st ws (Some ''host'') rc now rnd hex = Inl (e, st'') \<Longrightarrow>
     e \<noteq> ROOM_FULL \<and> rooms st'' = rooms st"
proof (cases "sig_checkRateLimit (rateLimits st) (remoteAddress (socks st ws)) now")
  case (Inl p)
  assume f: "handleHello st ws (Some ''host'') rc now rnd hex = Inl (e, st'')"
  obtain e0 l0 where p: "p = (e0, l0)" by (cases p)
  from sig_checkRateLimit_Inl [OF Inl [unfolded p]] f Inl p
  show ?thesis by (auto simp: handleHello_limited)
next
  case (Inr lims0)
  assume f: "handleHello st ws (Some ''host'') rc now rnd hex = Inl (e, st'')"
  then obtain e0 where l: "room_code_loop rnd (rooms st) 0 = Inl e0" and e: "e = e0"
    and s: "st'' = st\<lparr>rateLimits := lims0\<rparr>"
    unfolding handleHello_host_cases [OF Inr] by (auto split: sum.splits prod.splits)
  from room_code_loop_Inl [OF l] e s show ?thesis by simp
qed

lemma handleHello_host_keeps_rooms:
  assumes "handleHello st ws (Some ''host'') rc now rnd hex = Inr st'"
    and "rooms st c' \<noteq> None"
  shows "rooms st' c' = rooms st c'"
proof -
  from assms(1) obtain lims0 where lims0:
    "sig_checkRateLimit (rateLimits st) (remoteAddress (socks st ws)) now = Inr lims0"
    by (cases "sig_checkRateLimit (rateLimits st) (remoteAddress (socks st ws)) now")
       (auto simp: handleHello_def Let_def)
  from assms(1) obtain c n r where loop: "room_code_loop rnd (rooms st) 0 = Inr (c, n)"
    and st': "rooms st' = (rooms st)(c \<mapsto> r)"
    unfolding handleHello_host_cases [OF lims0] by (auto split: sum.splits prod.splits)
  from room_code_loop_Inr [OF loop] have "rooms st c = None" by blast
  with assms(2) have "c' \<noteq> c" by auto
  then show ?thesis by (simp add: st')
qed

lemma handleHello_guest_full:
  assumes "rooms st c = Some r" "guest r \<noteq> None" "c \<noteq> []" "\<not> isExpired r now"
    and "sig_checkRateLimit (rateLimits st) (remoteAddress (socks st ws)) now = Inr lims"
  shows "handleHello st ws (Some ''guest'') (Some c) now rnd hex =
           Inl (ROOM_FULL, st\<lparr>rateLimits := lims\<rparr>)"
  using assms by (simp add: handleHello_def Let_def falsy_def Room_addPlayer_def)

lemma handleHello_host_ignores_room:
  "handleHello st ws (Some ''host'') rc now rnd hex =
   handleHello st ws (Some ''host'') rc' now rnd hex"
proof (cases "sig_checkRateLimit (rateLimits st) (remoteAddress (socks st ws)) now")
  case (Inl p)
  then show ?thesis by (cases p) (simp add: handleHello_limited)
next
  case (Inr lims0)
  show ?thesis by (simp only: handleHello_host_cases [OF Inr])
qed

lemma handleHello_host_new_room:
  assumes "handleHello st ws (Some ''host'') rc now rnd hex = Inr st'"
  shows "\<exists>k<10. rooms st (generateRoomCode (rnd k)) = None
           \<and> rooms st' = (rooms st)(generateRoomCode (rnd k) \<mapsto>
                 \<lparr>code = generateRoomCode (rnd k), host = Some ws, guest = None,
                  createdAt = now, lastActivity = now, heartbeatTimer = True\<rparr>)"
proof -
  from assms obtain lims0 where lims0:
    "sig_checkRateLimit (rateLimits st) (remoteAddress (socks st ws)) now = Inr lims0"
    by (cases "sig_checkRateLimit (rateLimits st) (remoteAddress (socks st ws)) now")
       (auto simp: handleHello_def Let_def)
  from assms obtain c n where loop: "room_code_loop rnd (rooms st) 0 = Inr (c, n)"
    and st': "rooms st' = (rooms st)(c \<mapsto> (new_Room c now)\<lparr>host := Some ws, heartbeatTimer := True\<rparr>)"
    unfolding handleHello_host_cases [OF lims0] by (auto split: sum.splits prod.splits)
  from room_code_loop_Inr [OF loop]
  have n: "0 < n" "n \<le> 10" and c: "c = generateRoomCode (rnd (n - 1))" and free: "rooms st c = None"
    by blast+
  have k: "n - 1 < 10" using n by simp
  have r: "rooms st' = (rooms st)(c \<mapsto>
      \<lparr>code = c, host = Some ws, guest = None, createdAt = now, lastActivity = now,
       heartbeatTimer = True\<rparr>)"
    by (simp add: st' new_Room_def)
  show ?thesis using k free r unfolding c by blast
qed

lemma handleHello_host_succeeds:
  assumes "sig_checkRateLimit (rateLimits st) (remoteAddress (socks st ws)) now = Inr lims"
    and "\<exists>j<10. rooms st (generateRoomCode (rnd j)) = None"
  shows "\<not> isl (handleHello st ws (Some ''host'') rc now rnd hex)"
proof (cases "room_code_loop rnd (rooms st) 0")
  case (Inl e)
  from room_code_loop_Inl [OF Inl] assms(2) show ?thesis by auto
next
  case (Inr p)
  then show ?thesis unfolding handleHello_host_cases [OF assms(1)]
    by (simp split: prod.splits)
qed

lemma sig_paired_eq:
  "sig_paired =
     \<lparr>rooms = [''AAAAAA'' \<mapsto> \<lparr>code = ''AAAAAA'', host = Some 2, guest = Some 3, createdAt = 0,
                lastActivity = 10, heartbeatTimer = True\<rparr>],
      rateLimits = [''10.0.0.1'' \<mapsto> \<lparr>handshakes = [0, 10], rooms_held = 2\<rparr>],
      socks = (\<lambda>ws. fresh_sock)
            (2 := fresh_sock\<lparr>role := Some ''host'', room := Some ''AAAAAA'',
                   sent := [HelloAck ''AAAAAA'' ''host'' (generateTurnCredentials ''AAAAAA'' [])]\<rparr>,
             3 := fresh_sock\<lparr>role := Some ''guest'', room := Some ''AAAAAA'',
                   sent := [HelloAck ''AAAAAA'' ''guest'' (generateTurnCredentials ''AAAAAA'' [])]\<rparr>)\<rparr>"
  by (simp add: sig_paired_def sig_handleMessage_def sig_hosted_eq handleHello_def
      sig_checkRateLimit_def Let_def fresh_sock_def falsy_def isExpired_def ROOM_TTL_IDLE_def
      ROOM_TTL_MAX_def Room_addPlayer_def bump_rooms_def ws_send_def)

lemma hello_host_again:
  "map_option host (rooms sig_hosted ''AAAAAA'') = Some (Some 2)
   \<and> \<not> isl (handleHello sig_hosted 3 (Some ''host'') (Some ''AAAAAA'') 10 rnd_B [])
   \<and> sent (socks (sig_handleMessage sig_hosted 3 (Some (Hello (Some ''host'') (Some ''AAAAAA'')))
               10 rnd_B []) 3) =
       [HelloAck ''BBBBBB'' ''host'' (generateTurnCredentials ''BBBBBB'' [])]
   \<and> map_option host (rooms (sig_handleMessage sig_hosted 3
         (Some (Hello (Some ''host'') (Some ''AAAAAA''))) 10 rnd_B []) ''BBBBBB'') = Some (Some 3)"
  by (simp add: sig_handleMessage_def sig_hosted_eq handleHello_def
      sig_checkRateLimit_def Let_def fresh_sock_def room_code_loop.simps [of _ _ 0] rnd_B_def
      generateRoomCode_B Room_addPlayer_def new_Room_def startHeartbeat_def bump_rooms_def
      ws_send_def)

text \<open>
  A second \<open>hello(role=host)\<close> that names the occupied room AAAAAA is not refused: the
  server ignores the room named, opens the new room BBBBBB for the sender and answers
  with its acknowledgement.
\<close>

theorem hello_host_occupied_counterexample:
  "map_option host (rooms sig_hosted ''AAAAAA'') = Some (Some 2)
   \<and> \<not> isl (handleHello sig_hosted 3 (Some ''host'') (Some ''AAAAAA'') 10 rnd_B [])
   \<and> sent (socks (sig_handleMessage sig_hosted 3 (Some (Hello (Some ''host'') (Some ''AAAAAA'')))
               10 rnd_B []) 3) =
       [HelloAck ''BBBBBB'' ''host'' (generateTurnCredentials ''BBBBBB'' [])]
   \<and> map_option host (rooms (sig_handleMessage sig_hosted 3
         (Some (Hello (Some ''host'') (Some ''AAAAAA''))) 10 rnd_B []) ''BBBBBB'') = Some (Some 3)"
  by (rule hello_host_again)

text \<open>
  C1, as the server behaves: a \<open>hello(role=guest)\<close> for a live room whose guest slot is
  taken fails with \<open>ROOM_FULL\<close>, the only change being the handshake that the rate limit
  records, and the room table is as before; \<open>Room.addPlayer\<close> on a taken slot throws
  \<open>ROOM_FULL\<close>. A \<open>hello(role=host)\<close> names no target room: its outcome does not
  depend on the room field of the message; when the rate limit admits it and one of the
  first ten codes drawn is free, it succeeds; when it succeeds, the room table is the old
  one with one new room added under a code that no room had, with the sender as host and
  no guest, so every room that existed is unchanged; and when it fails the error is
  never \<open>ROOM_FULL\<close> and the room table is as before.
\<close>

theorem hello_occupied_slot:
  "(rooms st c = Some r \<and> guest r \<noteq> None \<and> c \<noteq> [] \<and> \<not> isExpired r now
      \<and> sig_checkRateLimit (rateLimits st) (remoteAddress (socks st ws)) now = Inr lims \<longrightarrow>
        handleHello st ws (Some ''guest'') (Some c) now rnd hex =
          Inl (ROOM_FULL, st\<lparr>rateLimits := lims\<rparr>)
        \<and> sig_handleMessage st ws (Some (Hello (Some ''guest'') (Some c))) now rnd hex =
          sig_sendError (st\<lparr>rateLimits := lims\<rparr>) ws ROOM_FULL
        \<and> rooms (sig_handleMessage st ws (Some (Hello (Some ''guest'') (Some c))) now rnd hex) =
          rooms st)
   \<and> (handleHello st ws (Some ''host'') rc now rnd hex = Inr st' \<longrightarrow>
        (\<forall>c'. rooms st c' \<noteq> None \<longrightarrow> rooms st' c' = rooms st c'))
   \<and> (handleHello st ws (Some ''host'') rc now rnd hex = Inl (e, st'') \<longrightarrow>
        e \<noteq> ROOM_FULL \<and> rooms st'' = rooms st)
   \<and> (host r' \<noteq> None \<longrightarrow> Room_addPlayer r' ss ws ''host'' now = Inl ROOM_FULL)
   \<and> (guest r' \<noteq> None \<longrightarrow> Room_addPlayer r' ss ws ''guest'' now = Inl ROOM_FULL)
   \<and> handleHello st ws (Some ''host'') rc now rnd hex =
       handleHello st ws (Some ''host'') rc' now rnd hex
   \<and> (handleHello st ws (Some ''host'') rc now rnd hex = Inr st' \<longrightarrow>
        (\<exists>k<10. rooms st (generateRoomCode (rnd k)) = None
           \<and> rooms st' = (rooms st)(generateRoomCode (rnd k) \<mapsto>
                 \<lparr>code = generateRoomCode (rnd k), host = Some ws, guest = None,
                  createdAt = now, lastActivity = now, heartbeatTimer = True\<rparr>)))
   \<and> (sig_checkRateLimit (rateLimits st) (remoteAddress (socks st ws)) now = Inr lims
        \<and> (\<exists>j<10. rooms st (generateRoomCode (rnd j)) = None) \<longrightarrow>
        \<not> isl (handleHello st ws (Some ''host'') rc now rnd hex))"
proof (intro conjI impI allI)
  assume h: "rooms st c = Some r \<and> guest r \<noteq> None \<and> c \<noteq> [] \<and> \<not> isExpired r now
      \<and> sig_checkRateLimit (rateLimits st) (remoteAddress (socks st ws)) now = Inr lims"
  then show full: "handleHello st ws (Some ''guest'') (Some c) now rnd hex =
          Inl (ROOM_FULL, st\<lparr>rateLimits := lims\<rparr>)"
    using handleHello_guest_full [of st c r now ws lims rnd hex] by blast
  then show msg: "sig_handleMessage st ws (Some (Hello (Some ''guest'') (Some c))) now rnd hex =
          sig_sendError (st\<lparr>rateLimits := lims\<rparr>) ws ROOM_FULL"
    by (simp add: sig_handleMessage_def)
  show "rooms (sig_handleMessage st ws (Some (Hello (Some ''guest'') (Some c))) now rnd hex) =
          rooms st"
    unfolding msg by (simp add: sig_sendError_def)
next
  fix c'
  assume "handleHello st ws (Some ''host'') rc now rnd hex = Inr st'" "rooms st c' \<noteq> None"
  then show "rooms st' c' = rooms st c'" by (rule handleHello_host_keeps_rooms)
next
  assume "handleHello st ws (Some ''host'') rc now rnd hex = Inl (e, st'')"
  then show "e \<noteq> ROOM_FULL" using handleHello_host_not_full by blast
next
  assume "handleHello st ws (Some ''host'') rc now rnd hex = Inl (e, st'')"
  then show "rooms st'' = rooms st" using handleHello_host_not_full by blast
next
  assume "host r' \<noteq> None"
  then show "Room_addPlayer r' ss ws ''host'' now = Inl ROOM_FULL"
    by (simp add: Room_addPlayer_def)
next
  assume "guest r' \<noteq> None"
  then show "Room_addPlayer r' ss ws ''guest'' now = Inl ROOM_FULL"
    by (simp add: Room_addPlayer_def)
next
  show "handleHello st ws (Some ''host'') rc now rnd hex =
       handleHello st ws (Some ''host'') rc' now rnd hex"
    by (rule handleHello_host_ignores_room)
next
  assume "handleHello st ws (Some ''host'') rc now rnd hex = Inr st'"
  then show "\<exists>k<10. rooms st (generateRoomCode (rnd k)) = None
           \<and> rooms st' = (rooms st)(generateRoomCode (rnd k) \<mapsto>
                 \<lparr>code = generateRoomCode (rnd k), host = Some ws, guest = None,
                  createdAt = now, lastActivity = now, heartbeatTimer = True\<rparr>)"
    by (rule handleHello_host_new_room)
next
  assume "sig_checkRateLimit (rateLimits st) (remoteAddress (socks st ws)) now = Inr lims
        \<and> (\<exists>j<10. rooms st (generateRoomCode (rnd j)) = None)"
  then show "\<not> isl (handleHello st ws (Some ''host'') rc now rnd hex)"
    using handleHello_host_succeeds by blast
qed

theorem hello_occupied_slot_witness:
  "handleHello sig_paired 4 (Some ''guest'') (Some ''AAAAAA'') 20 rnd_A [] =
     Inl (ROOM_FULL,
          sig_paired\<lparr>rateLimits := [''10.0.0.1'' \<mapsto> \<lparr>handshakes = [0, 10, 20], rooms_held = 2\<rparr>]\<rparr>)
   \<and> sent (socks (sig_handleMessage sig_paired 4 (Some (Hello (Some ''guest'') (Some ''AAAAAA'')))
               20 rnd_A []) 4) = [ErrorFrame ROOM_FULL]
   \<and> rooms (sig_handleMessage sig_paired 4 (Some (Hello (Some ''guest'') (Some ''AAAAAA'')))
               20 rnd_A []) = rooms sig_paired
   \<and> rooms (projr (handleHello sig_hosted 3 (Some ''host'') (Some ''AAAAAA'') 10 rnd_B []))
        ''AAAAAA'' = rooms sig_hosted ''AAAAAA''
   \<and> rooms (projr (handleHello sig_hosted 3 (Some ''host'') (Some ''AAAAAA'') 10 rnd_B [])) =
        (rooms sig_hosted)(''BBBBBB'' \<mapsto>
           \<lparr>code = ''BBBBBB'', host = Some 3, guest = None, createdAt = 10, lastActivity = 10,
            heartbeatTimer = True\<rparr>)
   \<and> \<not> isl (handleHello sig_hosted 3 (Some ''host'') (Some ''AAAAAA'') 10 rnd_B [])
   \<and> Room_addPlayer
        \<lparr>code = ''AAAAAA'', host = Some 2, guest = Some 3, createdAt = 0, lastActivity = 10,
         heartbeatTimer = True\<rparr> (socks sig_paired) 4 ''host'' 20 = Inl ROOM_FULL"
proof -
  let ?r = "\<lparr>code = ''AAAAAA'', host = Some 2, guest = Some 3, createdAt = 0,
                lastActivity = 10, heartbeatTimer = True\<rparr>"
  let ?l = "[''10.0.0.1'' \<mapsto> \<lparr>handshakes = [0, 10, 20], rooms_held = 2\<rparr>]"
  let ?m = "[''10.0.0.1'' \<mapsto> \<lparr>handshakes = [0, 10], rooms_held = 1\<rparr>]"
  let ?h = "handleHello sig_hosted 3 (Some ''host'') (Some ''AAAAAA'') 10 rnd_B []"
  have h: "rooms sig_paired ''AAAAAA'' = Some ?r \<and> guest ?r \<noteq> None \<and> ''AAAAAA'' \<noteq> []
      \<and> \<not> isExpired ?r 20
      \<and> sig_checkRateLimit (rateLimits sig_paired) (remoteAddress (socks sig_paired 4)) 20 = Inr ?l"
    by (simp add: sig_paired_eq isExpired_def ROOM_TTL_IDLE_def ROOM_TTL_MAX_def
        sig_checkRateLimit_def Let_def fresh_sock_def)
  have adm: "sig_checkRateLimit (rateLimits sig_hosted) (remoteAddress (socks sig_hosted 3)) 10 = Inr ?m"
    by (simp add: sig_hosted_eq sig_checkRateLimit_def Let_def fresh_sock_def)
  have free: "\<exists>j<10. rooms sig_hosted (generateRoomCode (rnd_B j)) = None"
    by (rule exI [of _ 0]) (simp add: sig_hosted_eq rnd_B_def generateRoomCode_B)
  have hr: "host ?r \<noteq> None" by simp
  note t = hello_occupied_slot [where st = sig_paired and c = "''AAAAAA''" and r = ?r
      and now = 20 and ws = 4 and lims = ?l and rnd = rnd_A and hex = "[]"
      and r' = ?r and ss = "socks sig_paired"]
  note u = hello_occupied_slot [where st = sig_hosted and ws = 3 and rc = "Some ''AAAAAA''"
      and now = 10 and rnd = rnd_B and hex = "[]" and lims = ?m and st' = "projr ?h"]
  from u [THEN conjunct2, THEN conjunct2, THEN conjunct2, THEN conjunct2, THEN conjunct2,
      THEN conjunct2, THEN conjunct2, THEN mp, OF conjI [OF adm free]]
  have ok: "\<not> isl ?h" .
  then have g: "?h = Inr (projr ?h)" by (cases ?h) simp_all
  have k: "rooms sig_hosted ''AAAAAA'' \<noteq> None" by (simp add: sig_hosted_eq)
  from t [THEN conjunct1, THEN mp, OF h]
  have a: "handleHello sig_paired 4 (Some ''guest'') (Some ''AAAAAA'') 20 rnd_A [] =
     Inl (ROOM_FULL, sig_paired\<lparr>rateLimits := ?l\<rparr>)"
    and b: "sig_handleMessage sig_paired 4 (Some (Hello (Some ''guest'') (Some ''AAAAAA''))) 20 rnd_A [] =
          sig_sendError (sig_paired\<lparr>rateLimits := ?l\<rparr>) 4 ROOM_FULL"
    and c: "rooms (sig_handleMessage sig_paired 4 (Some (Hello (Some ''guest'') (Some ''AAAAAA'')))
               20 rnd_A []) = rooms sig_paired"
    by blast+
  from u [THEN conjunct2, THEN conjunct1, THEN mp, OF g] k
  have d: "rooms (projr ?h) ''AAAAAA'' = rooms sig_hosted ''AAAAAA''"
    by blast
  from u [THEN conjunct2, THEN conjunct2, THEN conjunct2, THEN conjunct2, THEN conjunct2,
      THEN conjunct2, THEN conjunct1, THEN mp, OF g]
  obtain j where "rooms (projr ?h) = (rooms sig_hosted)(generateRoomCode (rnd_B j) \<mapsto>
                 \<lparr>code = generateRoomCode (rnd_B j), host = Some 3, guest = None,
                  createdAt = 10, lastActivity = 10, heartbeatTimer = True\<rparr>)"
    by blast
  then have n: "rooms (projr ?h) = (rooms sig_hosted)(''BBBBBB'' \<mapsto>
           \<lparr>code = ''BBBBBB'', host = Some 3, guest = None, createdAt = 10, lastActivity = 10,
            heartbeatTimer = True\<rparr>)"
    by (simp add: rnd_B_def generateRoomCode_B)
  from t [THEN conjunct2, THEN conjunct2, THEN conjunct2, THEN conjunct1, THEN mp, OF hr]
  have f: "Room_addPlayer ?r (socks sig_paired) 4 ''host'' 20 = Inl ROOM_FULL" .
  have e: "sent (socks (sig_handleMessage sig_paired 4 (Some (Hello (Some ''guest'') (Some ''AAAAAA'')))
               20 rnd_A []) 4) = [ErrorFrame ROOM_FULL]"
    unfolding b by (simp add: sig_sendError_def sig_paired_eq fresh_sock_def ws_send_def)
  show ?thesis using a c d e n ok f by (intro conjI)
qed

section \<open>Properties of the relay server\<close>

lemma relay_checkRateLimit_Inl:
  "relay_checkRateLimit rl ip now = Inl (e, lims) \<Longrightarrow> e = RATE_LIMITED"
  by (auto simp: relay_checkRateLimit_def Let_def split: if_splits)

lemma relay_try_admitted:
  assumes "len d \<le> MAX_MESSAGE_SIZE"
    and "relay_checkRateLimit (relayLimits st) (remoteAddress (rsocks st ws)) now = Inr lims"
  shows "relay_try st ws d now =
     (case parsed d of
        None \<Rightarrow> Inl (SyntaxError, st\<lparr>relayLimits := lims\<rparr>)
      | Some (RoleMsg rl rm) \<Rightarrow> handleRoleMessage (st\<lparr>relayLimits := lims\<rparr>) ws rl rm now
      | Some (InputMsg p) \<Rightarrow> handleInputMessage (st\<lparr>relayLimits := lims\<rparr>) ws p now
      | Some (StateMsg p) \<Rightarrow> handleStateMessage (st\<lparr>relayLimits := lims\<rparr>) ws p now
      | Some PingMsg \<Rightarrow> Inr (handlePingMessage (st\<lparr>relayLimits := lims\<rparr>) ws now)
      | Some RelayUnknown \<Rightarrow> Inr (st\<lparr>relayLimits := lims\<rparr>))"
  using assms by (simp add: relay_try_def Let_def)


lemma handleRoleMessage_replace_host:
  assumes "sessions st rm = Some s" "rhost s = Some old" "rm \<noteq> []"
  shows "handleRoleMessage st ws (Some ''host'') (Some rm) now =
     Inr (st\<lparr>sessions := (sessions st)(rm \<mapsto> s\<lparr>rhost := Some ws, rlastActivity := now\<rparr>),
             rsocks := ws_send
               ((ws_close (rsocks st) old 1000 ''Replaced by new host'')
                  (ws := (ws_close (rsocks st) old 1000 ''Replaced by new host'' ws)
                     \<lparr>role := Some ''host'', session := Some (roomCode s)\<rparr>))
               ws (RoleAck ''host'' rm)\<rparr>)"
  using assms
  by (simp add: handleRoleMessage_def falsy_def RelaySession_addPlayer_def Let_def)

lemma handleRoleMessage_replace_guest:
  assumes "sessions st rm = Some s" "rguest s = Some old" "rm \<noteq> []"
  shows "handleRoleMessage st ws (Some ''guest'') (Some rm) now =
     Inr (st\<lparr>sessions := (sessions st)(rm \<mapsto> s\<lparr>rguest := Some ws, rlastActivity := now\<rparr>),
             rsocks := ws_send
               ((ws_close (rsocks st) old 1000 ''Replaced by new guest'')
                  (ws := (ws_close (rsocks st) old 1000 ''Replaced by new guest'' ws)
                     \<lparr>role := Some ''guest'', session := Some (roomCode s)\<rparr>))
               ws (RoleAck ''guest'' rm)\<rparr>)"
  using assms
  by (simp add: handleRoleMessage_def falsy_def RelaySession_addPlayer_def Let_def)

lemma closes_after_replace:
  "closes (ws_send ((ws_close ss old c reason)
      (ws := (ws_close ss old c reason ws)\<lparr>role := r, session := x\<rparr>)) ws f old) =
     closes (ss old) @ [(c, reason)]"
  by (simp add: ws_send_def ws_close_def)

lemma sent_after_replace:
  "sent (ws_send ((ws_close ss old c reason)
      (ws := (ws_close ss old c reason ws)\<lparr>role := r, session := x\<rparr>)) ws f ws) =
     sent (ss ws) @ [f]"
  by (simp add: ws_send_def ws_close_def)

text \<open>
  What a \<open>role\<close> message does by the time its handler returns, when the slot it asks
  for is occupied: the previous holder's socket is closed with code 1000 and the reason
  of the slot, the sender is in the slot, the other slot is as before and the sender is
  sent \<open>role-ack\<close>.
\<close>

lemma role_replaces_holder:
  "(sessions st rm = Some s \<and> rhost s = Some old \<and> rm \<noteq> [] \<and> len d \<le> MAX_MESSAGE_SIZE
      \<and> parsed d = Some (RoleMsg (Some ''host'') (Some rm))
      \<and> relay_checkRateLimit (relayLimits st) (remoteAddress (rsocks st ws)) now = Inr lims \<longrightarrow>
        closes (rsocks (relay_handleMessage st ws d now) old) =
          closes (rsocks st old) @ [(1000, ''Replaced by new host'')]
        \<and> map_option rhost (sessions (relay_handleMessage st ws d now) rm) = Some (Some ws)
        \<and> map_option rguest (sessions (relay_handleMessage st ws d now) rm) = Some (rguest s)
        \<and> sent (rsocks (relay_handleMessage st ws d now) ws) =
            sent (rsocks st ws) @ [RoleAck ''host'' rm])
   \<and> (sessions st rm = Some s \<and> rguest s = Some old \<and> rm \<noteq> [] \<and> len d \<le> MAX_MESSAGE_SIZE
      \<and> parsed d = Some (RoleMsg (Some ''guest'') (Some rm))
      \<and> relay_checkRateLimit (relayLimits st) (remoteAddress (rsocks st ws)) now = Inr lims \<longrightarrow>
        closes (rsocks (relay_handleMessage st ws d now) old) =
          closes (rsocks st old) @ [(1000, ''Replaced by new guest'')]
        \<and> map_option rguest (sessions (relay_handleMessage st ws d now) rm) = Some (Some ws)
        \<and> map_option rhost (sessions (relay_handleMessage st ws d now) rm) = Some (rhost s)
        \<and> sent (rsocks (relay_handleMessage st ws d now) ws) =
            sent (rsocks st ws) @ [RoleAck ''guest'' rm])"
proof (intro conjI impI)
  assume h: "sessions st rm = Some s \<and> rhost s = Some old \<and> rm \<noteq> [] \<and> len d \<le> MAX_MESSAGE_SIZE
      \<and> parsed d = Some (RoleMsg (Some ''host'') (Some rm))
      \<and> relay_checkRateLimit (relayLimits st) (remoteAddress (rsocks st ws)) now = Inr lims"
  then have t: "relay_try st ws d now =
      handleRoleMessage (st\<lparr>relayLimits := lims\<rparr>) ws (Some ''host'') (Some rm) now"
    by (simp add: relay_try_admitted)
  from h have r: "handleRoleMessage (st\<lparr>relayLimits := lims\<rparr>) ws (Some ''host'') (Some rm) now =
     Inr (st\<lparr>relayLimits := lims\<rparr>\<lparr>sessions := (sessions st)(rm \<mapsto> s\<lparr>rhost := Some ws, rlastActivity := now\<rparr>),
             rsocks := ws_send
               ((ws_close (rsocks st) old 1000 ''Replaced by new host'')
                  (ws := (ws_close (rsocks st) old 1000 ''Replaced by new host'' ws)
                     \<lparr>role := Some ''host'', session := Some (roomCode s)\<rparr>))
               ws (RoleAck ''host'' rm)\<rparr>)"
    using handleRoleMessage_replace_host [of "st\<lparr>relayLimits := lims\<rparr>" rm s old ws now] by simp
  show "closes (rsocks (relay_handleMessage st ws d now) old) =
          closes (rsocks st old) @ [(1000, ''Replaced by new host'')]"
    by (simp add: relay_handleMessage_def t r closes_after_replace)
  show "map_option rhost (sessions (relay_handleMessage st ws d now) rm) = Some (Some ws)"
    by (simp add: relay_handleMessage_def t r)
  show "map_option rguest (sessions (relay_handleMessage st ws d now) rm) = Some (rguest s)"
    by (simp add: relay_handleMessage_def t r)
  show "sent (rsocks (relay_handleMessage st ws d now) ws) =
            sent (rsocks st ws) @ [RoleAck ''host'' rm]"
    by (simp add: relay_handleMessage_def t r sent_after_replace)
next
  assume h: "sessions st rm = Some s \<and> rguest s = Some old \<and> rm \<noteq> [] \<and> len d \<le> MAX_MESSAGE_SIZE
      \<and> parsed d = Some (RoleMsg (Some ''guest'') (Some rm))
      \<and> relay_checkRateLimit (relayLimits st) (remoteAddress (rsocks st ws)) now = Inr lims"
  then have t: "relay_try st ws d now =
      handleRoleMessage (st\<lparr>relayLimits := lims\<rparr>) ws (Some ''guest'') (Some rm) now"
    by (simp add: relay_try_admitted)
  from h have r: "handleRoleMessage (st\<lparr>relayLimits := lims\<rparr>) ws (Some ''guest'') (Some rm) now =
     Inr (st\<lparr>relayLimits := lims\<rparr>\<lparr>sessions := (sessions st)(rm \<mapsto> s\<lparr>rguest := Some ws, rlastActivity := now\<rparr>),
             rsocks := ws_send
               ((ws_close (rsocks st) old 1000 ''Replaced by new guest'')
                  (ws := (ws_close (rsocks st) old 1000 ''Replaced by new guest'' ws)
                     \<lparr>role := Some ''guest'', session := Some (roomCode s)\<rparr>))
               ws (RoleAck ''guest'' rm)\<rparr>)"
    using handleRoleMessage_replace_guest [of "st\<lparr>relayLimits := lims\<rparr>" rm s old ws now] by simp
  show "closes (rsocks (relay_handleMessage st ws d now) old) =
          closes (rsocks st old) @ [(1000, ''Replaced by new guest'')]"
    by (simp add: relay_handleMessage_def t r closes_after_replace)
  show "map_option rguest (sessions (relay_handleMessage st ws d now) rm) = Some (Some ws)"
    by (simp add: relay_handleMessage_def t r)
  show "map_option rhost (sessions (relay_handleMessage st ws d now) rm) = Some (rhost s)"
    by (simp add: relay_handleMessage_def t r)
  show "sent (rsocks (relay_handleMessage st ws d now) ws) =
            sent (rsocks st ws) @ [RoleAck ''guest'' rm]"
    by (simp add: relay_handleMessage_def t r sent_after_replace)
qed

lemma relay_hosted_eq:
  "relay_hosted =
     \<lparr>sessions = [''AAAAAA'' \<mapsto> \<lparr>roomCode = ''AAAAAA'', rhost = Some 2, rguest = None,
          rcreatedAt = 0, rlastActivity = 0, messageCount = 0\<rparr>],
      relayLimits = [''10.0.0.1'' \<mapsto> \<lparr>messages = [0], lastReset = 0\<rparr>],
      rsocks = (\<lambda>ws. fresh_sock)
        (2 := fresh_sock\<lparr>role := Some ''host'', session := Some ''AAAAAA'',
                sent := [RoleAck ''host'' ''AAAAAA'']\<rparr>)\<rparr>"
  by (simp add: relay_hosted_def relay_handleMessage_def relay_try_def relay_init_def
      role_data_def MAX_MESSAGE_SIZE_def relay_checkRateLimit_def MAX_MESSAGES_PER_SECOND_def
      Let_def fresh_sock_def handleRoleMessage_def falsy_def new_RelaySession_def
      RelaySession_addPlayer_def ws_send_def)

lemma relay_paired_eq:
  "relay_paired =
     \<lparr>sessions = [''AAAAAA'' \<mapsto> \<lparr>roomCode = ''AAAAAA'', rhost = Some 2, rguest = Some 3,
          rcreatedAt = 0, rlastActivity = 10, messageCount = 0\<rparr>],
      relayLimits = [''10.0.0.1'' \<mapsto> \<lparr>messages = [0, 10], lastReset = 0\<rparr>],
      rsocks = (\<lambda>ws. fresh_sock)
        (2 := fresh_sock\<lparr>role := Some ''host'', session := Some ''AAAAAA'',
                sent := [RoleAck ''host'' ''AAAAAA'']\<rparr>,
         3 := fresh_sock\<lparr>role := Some ''guest'', session := Some ''AAAAAA'',
                sent := [RoleAck ''guest'' ''AAAAAA'']\<rparr>)\<rparr>"
  by (simp add: relay_paired_def relay_hosted_eq relay_handleMessage_def relay_try_def
      role_data_def MAX_MESSAGE_SIZE_def relay_checkRateLimit_def MAX_MESSAGES_PER_SECOND_def
      Let_def fresh_sock_def handleRoleMessage_def falsy_def
      RelaySession_addPlayer_def ws_send_def)

lemma role_replaces_holder_example:
  "closes (rsocks (relay_handleMessage relay_paired 4 (role_data ''host'' ''AAAAAA'') 20) 2) =
     [(1000, ''Replaced by new host'')]
   \<and> map_option rhost (sessions (relay_handleMessage relay_paired 4 (role_data ''host'' ''AAAAAA'') 20)
        ''AAAAAA'') = Some (Some 4)
   \<and> sent (rsocks (relay_handleMessage relay_paired 4 (role_data ''host'' ''AAAAAA'') 20) 4) =
       [RoleAck ''host'' ''AAAAAA'']
   \<and> closes (rsocks (relay_handleMessage relay_paired 5 (role_data ''guest'' ''AAAAAA'') 20) 3) =
     [(1000, ''Replaced by new guest'')]
   \<and> map_option rguest (sessions (relay_handleMessage relay_paired 5 (role_data ''guest'' ''AAAAAA'') 20)
        ''AAAAAA'') = Some (Some 5)"
proof -
  let ?s = "\<lparr>roomCode = ''AAAAAA'', rhost = Some 2, rguest = Some 3,
          rcreatedAt = 0, rlastActivity = 10, messageCount = 0\<rparr>"
  let ?l = "[''10.0.0.1'' \<mapsto> \<lparr>messages = [0, 10, 20], lastReset = 0\<rparr>]"
  have a: "sessions relay_paired ''AAAAAA'' = Some ?s \<and> rhost ?s = Some 2 \<and> ''AAAAAA'' \<noteq> []
      \<and> len (role_data ''host'' ''AAAAAA'') \<le> MAX_MESSAGE_SIZE
      \<and> parsed (role_data ''host'' ''AAAAAA'') = Some (RoleMsg (Some ''host'') (Some ''AAAAAA''))
      \<and> relay_checkRateLimit (relayLimits relay_paired) (remoteAddress (rsocks relay_paired 4)) 20 = Inr ?l"
    by (simp add: relay_paired_eq role_data_def MAX_MESSAGE_SIZE_def relay_checkRateLimit_def
        MAX_MESSAGES_PER_SECOND_def Let_def fresh_sock_def)
  have b: "sessions relay_paired ''AAAAAA'' = Some ?s \<and> rguest ?s = Some 3 \<and> ''AAAAAA'' \<noteq> []
      \<and> len (role_data ''guest'' ''AAAAAA'') \<le> MAX_MESSAGE_SIZE
      \<and> parsed (role_data ''guest'' ''AAAAAA'') = Some (RoleMsg (Some ''guest'') (Some ''AAAAAA''))
      \<and> relay_checkRateLimit (relayLimits relay_paired) (remoteAddress (rsocks relay_paired 5)) 20 = Inr ?l"
    by (simp add: relay_paired_eq role_data_def MAX_MESSAGE_SIZE_def relay_checkRateLimit_def
        MAX_MESSAGES_PER_SECOND_def Let_def fresh_sock_def)
  have c: "closes (rsocks relay_paired 2) = []" "closes (rsocks relay_paired 3) = []"
    "sent (rsocks relay_paired 4) = []"
    by (simp_all add: relay_paired_eq fresh_sock_def)
  from role_replaces_holder [where st = relay_paired and rm = "''AAAAAA''" and s = ?s and old = 2
      and d = "role_data ''host'' ''AAAAAA''" and ws = 4 and now = 20 and lims = ?l] a c
  have "closes (rsocks (relay_handleMessage relay_paired 4 (role_data ''host'' ''AAAAAA'') 20) 2) =
     [(1000, ''Replaced by new host'')]
   \<and> map_option rhost (sessions (relay_handleMessage relay_paired 4 (role_data ''host'' ''AAAAAA'') 20)
        ''AAAAAA'') = Some (Some 4)
   \<and> sent (rsocks (relay_handleMessage relay_paired 4 (role_data ''host'' ''AAAAAA'') 20) 4) =
       [RoleAck ''host'' ''AAAAAA'']"
    by simp
  moreover
  from role_replaces_holder [where st = relay_paired and rm = "''AAAAAA''" and s = ?s and old = 3
      and d = "role_data ''guest'' ''AAAAAA''" and ws = 5 and now = 20 and lims = ?l] b c
  have "closes (rsocks (relay_handleMessage relay_paired 5 (role_data ''guest'' ''AAAAAA'') 20) 3) =
     [(1000, ''Replaced by new guest'')]
   \<and> map_option rguest (sessions (relay_handleMessage relay_paired 5 (role_data ''guest'' ''AAAAAA'') 20)
        ''AAAAAA'') = Some (Some 5)"
    by simp
  ultimately show ?thesis by simp
qed

lemmas relay_eval =
  relay_handleMessage_def relay_try_def role_data_def input_data_def ping_data_def
  MAX_MESSAGE_SIZE_def relay_checkRateLimit_def MAX_MESSAGES_PER_SECOND_def Let_def
  fresh_sock_def handleRoleMessage_def handleInputMessage_def handlePingMessage_def
  falsy_def new_RelaySession_def RelaySession_addPlayer_def forwardMessage_def
  ws_send_def ws_close_def relay_sendError_def


subsection \<open>Replacement and the close event\<close>

lemma close_keeps_other_holder:
  assumes "sessions st k = Some s" and "w \<noteq> old"
  shows "(rhost s = Some w \<longrightarrow>
            map_option rhost (sessions (relay_onClose st old now) k) = Some (Some w))
       \<and> (rguest s = Some w \<longrightarrow>
            map_option rguest (sessions (relay_onClose st old now) k) = Some (Some w))"
  using assms
  by (auto simp: relay_onClose_def RelaySession_removePlayer_def Let_def split: option.splits)

text \<open>
  When the sender is another socket than the holder it replaces, the sender still holds
  the slot after the close event of the replaced socket has been handled.
\<close>

lemma replacement_survives_close:
  assumes "sessions st rm = Some s" and "rhost s = Some old" and "rm \<noteq> []"
    and "len d \<le> MAX_MESSAGE_SIZE"
    and "parsed d = Some (RoleMsg (Some ''host'') (Some rm))"
    and "relay_checkRateLimit (relayLimits st) (remoteAddress (rsocks st ws)) now = Inr lims"
    and "old \<noteq> ws"
  shows "map_option rhost
           (sessions (relay_onClose (relay_handleMessage st ws d now) old t) rm) = Some (Some ws)"
proof -
  from role_replaces_holder [THEN conjunct1, THEN mp, OF conjI [OF assms(1) conjI [OF assms(2)
      conjI [OF assms(3) conjI [OF assms(4) conjI [OF assms(5) assms(6)]]]]]]
  have "map_option rhost (sessions (relay_handleMessage st ws d now) rm) = Some (Some ws)"
    by blast
  then obtain s1 where s1: "sessions (relay_handleMessage st ws d now) rm = Some s1"
    and h: "rhost s1 = Some ws"
    by (cases "sessions (relay_handleMessage st ws d now) rm") auto
  from close_keeps_other_holder [OF s1, of ws old t] assms(7) h
  show ?thesis by blast
qed





subsection \<open>Input from a socket without a session\<close>

lemma session_ws_send [simp]: "session (ws_send ss w f x) = session (ss x)"
  by (simp add: ws_send_def)

lemma session_ws_close [simp]: "session (ws_close ss w c r x) = session (ss x)"
  by (simp add: ws_close_def)

lemma session_forwardMessage:
  "forwardMessage s ss w f now = (b, s', ss') \<Longrightarrow> session (ss' x) = session (ss x)"
  by (auto simp: forwardMessage_def Let_def split: option.splits if_splits)

lemma session_addPlayer:
  "RelaySession_addPlayer s ss w rl now = (s', ss') \<Longrightarrow> x \<noteq> w \<Longrightarrow>
     session (ss' x) = session (ss x)"
  by (auto simp: RelaySession_addPlayer_def Let_def split: option.splits if_splits)

lemma session_relay_sendError [simp]:
  "session (rsocks (relay_sendError st w e) x) = session (rsocks st x)"
  by (simp add: relay_sendError_def)

lemma session_handleInputMessage:
  "session (rsocks (case handleInputMessage st w p now of Inl (e, st') \<Rightarrow> relay_sendError st' w e
       | Inr st' \<Rightarrow> st') x) = session (rsocks st x)"
  by (auto simp: handleInputMessage_def Let_def split: option.splits prod.splits
      dest: session_forwardMessage)

lemma session_handleStateMessage:
  "session (rsocks (case handleStateMessage st w p now of Inl (e, st') \<Rightarrow> relay_sendError st' w e
       | Inr st' \<Rightarrow> st') x) = session (rsocks st x)"
  by (auto simp: handleStateMessage_def Let_def split: option.splits prod.splits
      dest: session_forwardMessage)

lemma session_handlePingMessage:
  "session (rsocks (handlePingMessage st w now) x) = session (rsocks st x)"
  by (auto simp: handlePingMessage_def Let_def split: option.splits)

lemma session_handleRoleMessage:
  "x \<noteq> w \<Longrightarrow>
   session (rsocks (case handleRoleMessage st w rl rm now of Inl (e, st') \<Rightarrow> relay_sendError st' w e
       | Inr st' \<Rightarrow> st') x) = session (rsocks st x)"
  by (auto simp: handleRoleMessage_def Let_def split: option.splits prod.splits
      dest: session_addPlayer)

lemma session_preserved:
  assumes "x \<noteq> w \<or> (\<forall>rl rm. parsed d \<noteq> Some (RoleMsg rl rm))"
  shows "session (rsocks (relay_handleMessage st w d now) x) = session (rsocks st x)"
proof (cases "len d > MAX_MESSAGE_SIZE")
  case True
  then show ?thesis by (simp add: relay_handleMessage_def relay_try_def)
next
  case False
  show ?thesis
  proof (cases "relay_checkRateLimit (relayLimits st) (remoteAddress (rsocks st w)) now")
    case (Inl q)
    then show ?thesis using False
      by (cases q) (simp add: relay_handleMessage_def relay_try_def)
  next
    case (Inr lims)
    have t: "relay_try st w d now =
     (case parsed d of
        None \<Rightarrow> Inl (SyntaxError, st\<lparr>relayLimits := lims\<rparr>)
      | Some (RoleMsg rl rm) \<Rightarrow> handleRoleMessage (st\<lparr>relayLimits := lims\<rparr>) w rl rm now
      | Some (InputMsg p) \<Rightarrow> handleInputMessage (st\<lparr>relayLimits := lims\<rparr>) w p now
      | Some (StateMsg p) \<Rightarrow> handleStateMessage (st\<lparr>relayLimits := lims\<rparr>) w p now
      | Some PingMsg \<Rightarrow> Inr (handlePingMessage (st\<lparr>relayLimits := lims\<rparr>) w now)
      | Some RelayUnknown \<Rightarrow> Inr (st\<lparr>relayLimits := lims\<rparr>))"
      using False Inr by (simp add: relay_try_admitted)
    show ?thesis
    proof (cases "parsed d")
      case None
      then show ?thesis by (simp add: relay_handleMessage_def t)
    next
      case (Some m)
      show ?thesis
      proof (cases m)
        case (RoleMsg rl rm)
        with Some assms have "x \<noteq> w" by auto
        from session_handleRoleMessage [OF this, where st = "st\<lparr>relayLimits := lims\<rparr>" and rl = rl and rm = rm and now = now]
        show ?thesis by (simp add: relay_handleMessage_def t Some RoleMsg)
      next
        case (InputMsg p)
        from session_handleInputMessage [where st = "st\<lparr>relayLimits := lims\<rparr>" and w = w and p = p and now = now and x = x]
        show ?thesis by (simp add: relay_handleMessage_def t Some InputMsg)
      next
        case (StateMsg p)
        from session_handleStateMessage [where st = "st\<lparr>relayLimits := lims\<rparr>" and w = w and p = p and now = now and x = x]
        show ?thesis by (simp add: relay_handleMessage_def t Some StateMsg)
      next
        case PingMsg
        from session_handlePingMessage [where st = "st\<lparr>relayLimits := lims\<rparr>" and w = w and now = now and x = x]
        show ?thesis by (simp add: relay_handleMessage_def t Some PingMsg)
      next
        case RelayUnknown
        then show ?thesis by (simp add: relay_handleMessage_def t Some)
      qed
    qed
  qed
qed

lemma session_relay_run:
  assumes "\<forall>(w, d, t) \<in> set evs. w = x \<longrightarrow> (\<forall>rl rm. parsed d \<noteq> Some (RoleMsg rl rm))"
  shows "session (rsocks (relay_run st evs) x) = session (rsocks st x)"
  using assms
proof (induction evs arbitrary: st)
  case Nil
  then show ?case by simp
next
  case (Cons ev evs)
  obtain w d t where ev: "ev = (w, d, t)" by (cases ev)
  from Cons.prems ev have "x \<noteq> w \<or> (\<forall>rl rm. parsed d \<noteq> Some (RoleMsg rl rm))" by auto
  from session_preserved [OF this] Cons show ?case by (simp add: ev)
qed

lemma input_no_session:
  assumes "session (rsocks st ws) = None"
    and "len d \<le> MAX_MESSAGE_SIZE" and "parsed d = Some (InputMsg p)"
    and "relay_checkRateLimit (relayLimits st) (remoteAddress (rsocks st ws)) now = Inr lims"
  shows "relay_handleMessage st ws d now = relay_sendError (st\<lparr>relayLimits := lims\<rparr>) ws NOT_IN_SESSION"
  using assms
  by (simp add: relay_handleMessage_def relay_try_admitted handleInputMessage_def falsy_def)

lemma ping_run_eq:
  "relay_run relay_init ping_run =
     \<lparr>sessions = [''AAAAAA'' \<mapsto> \<lparr>roomCode = ''AAAAAA'', rhost = Some 2, rguest = None,
          rcreatedAt = 0, rlastActivity = 0, messageCount = 0\<rparr>],
      relayLimits = [''10.0.0.1'' \<mapsto> \<lparr>messages = [0, 5], lastReset = 0\<rparr>],
      rsocks = (\<lambda>ws. fresh_sock)
        (2 := fresh_sock\<lparr>role := Some ''host'', session := Some ''AAAAAA'',
                sent := [RoleAck ''host'' ''AAAAAA'']\<rparr>,
         4 := fresh_sock\<lparr>sent := [Pong]\<rparr>)\<rparr>"
  by (simp add: ping_run_def relay_init_def relay_eval)

text \<open>
  C8: a socket that was connected without a session and has sent no \<open>role\<close> message in
  the run so far still has no session; an \<open>input\<close> message from it that passes the size
  and rate checks is answered, the socket being open, with the error frame
  \<open>NOT_IN_SESSION\<close>, and the session table is as before: the state changes only by
  the rate-limit entry and the frame sent.
\<close>

theorem input_before_role:
  assumes "session (rsocks st0 ws) = None"
    and "\<forall>(w, d', t) \<in> set evs. w = ws \<longrightarrow> (\<forall>rl rm. parsed d' \<noteq> Some (RoleMsg rl rm))"
    and "st = relay_run st0 evs"
    and "len d \<le> MAX_MESSAGE_SIZE" and "parsed d = Some (InputMsg p)"
    and "relay_checkRateLimit (relayLimits st) (remoteAddress (rsocks st ws)) now = Inr lims"
    and "readyState (rsocks st ws) = OPEN"
  shows "relay_handleMessage st ws d now =
           st\<lparr>relayLimits := lims, rsocks := ws_send (rsocks st) ws (ErrorFrame NOT_IN_SESSION)\<rparr>
         \<and> sessions (relay_handleMessage st ws d now) = sessions st
         \<and> sent (rsocks (relay_handleMessage st ws d now) ws) =
             sent (rsocks st ws) @ [ErrorFrame NOT_IN_SESSION]"
proof -
  have "session (rsocks st ws) = None"
    using session_relay_run [OF assms(2), of st0] assms(1,3) by simp
  from input_no_session [OF this assms(4,5,6)] assms(7)
  show ?thesis by (simp add: relay_sendError_def ws_send_def)
qed

theorem input_before_role_witness:
  "sessions (relay_handleMessage (relay_run relay_init ping_run) 4 input_data 9) =
     sessions (relay_run relay_init ping_run)
   \<and> sent (rsocks (relay_handleMessage (relay_run relay_init ping_run) 4 input_data 9) 4) =
       [Pong, ErrorFrame NOT_IN_SESSION]"
proof -
  let ?l = "[''10.0.0.1'' \<mapsto> \<lparr>messages = [0, 5, 9], lastReset = 0\<rparr>]"
  have a: "session (rsocks relay_init 4) = None" by (simp add: relay_init_def fresh_sock_def)
  have b: "\<forall>(w, d', t) \<in> set ping_run. w = 4 \<longrightarrow> (\<forall>rl rm. parsed d' \<noteq> Some (RoleMsg rl rm))"
    by (simp add: ping_run_def ping_data_def)
  have c: "len input_data \<le> MAX_MESSAGE_SIZE" "parsed input_data = Some (InputMsg (Payload ''left''))"
    by (simp_all add: input_data_def MAX_MESSAGE_SIZE_def)
  have d: "relay_checkRateLimit (relayLimits (relay_run relay_init ping_run))
      (remoteAddress (rsocks (relay_run relay_init ping_run) 4)) 9 = Inr ?l"
    by (simp add: ping_run_eq relay_checkRateLimit_def MAX_MESSAGES_PER_SECOND_def Let_def
        fresh_sock_def)
  have e: "readyState (rsocks (relay_run relay_init ping_run) 4) = OPEN"
    by (simp add: ping_run_eq fresh_sock_def)
  have f: "sent (rsocks (relay_run relay_init ping_run) 4) = [Pong]"
    by (simp add: ping_run_eq fresh_sock_def)
  from input_before_role [OF a b refl c d e] f show ?thesis by (simp add: ws_send_def)
qed


subsection \<open>Routing of input messages\<close>

lemma input_admitted:
  assumes "len d \<le> MAX_MESSAGE_SIZE" and "parsed d = Some (InputMsg p)"
    and "relay_checkRateLimit (relayLimits st) (remoteAddress (rsocks st ws)) now = Inr lims"
  shows "relay_handleMessage st ws d now =
     (case handleInputMessage (st\<lparr>relayLimits := lims\<rparr>) ws p now of
        Inl (e, st') \<Rightarrow> relay_sendError st' ws e | Inr st' \<Rightarrow> st')"
  using assms by (simp add: relay_handleMessage_def relay_try_admitted)

lemma relay_guest_only_eq:
  "relay_guest_only =
     \<lparr>sessions = [''AAAAAA'' \<mapsto> \<lparr>roomCode = ''AAAAAA'', rhost = None, rguest = Some 3,
          rcreatedAt = 0, rlastActivity = 0, messageCount = 0\<rparr>],
      relayLimits = [''10.0.0.1'' \<mapsto> \<lparr>messages = [0], lastReset = 0\<rparr>],
      rsocks = (\<lambda>ws. fresh_sock)
        (3 := fresh_sock\<lparr>role := Some ''guest'', session := Some ''AAAAAA'',
                sent := [RoleAck ''guest'' ''AAAAAA'']\<rparr>)\<rparr>"
  by (simp add: relay_guest_only_def relay_init_def relay_eval)

lemma input_no_session_eval:
  "session (rsocks relay_init 4) = None
   \<and> sent (rsocks (relay_handleMessage relay_init 4 input_data 0) 4) = [ErrorFrame NOT_IN_SESSION]"
  by (simp add: relay_init_def relay_eval)

lemma relay_swapped_eq:
  "relay_swapped =
     \<lparr>sessions = [''AAAAAA'' \<mapsto> \<lparr>roomCode = ''AAAAAA'', rhost = Some 2, rguest = Some 5,
          rcreatedAt = 0, rlastActivity = 20, messageCount = 0\<rparr>],
      relayLimits = [''10.0.0.1'' \<mapsto> \<lparr>messages = [0, 10, 20], lastReset = 0\<rparr>],
      rsocks = (\<lambda>ws. fresh_sock)
        (2 := fresh_sock\<lparr>role := Some ''guest'', session := Some ''AAAAAA'',
                readyState := CLOSING,
                sent := [RoleAck ''host'' ''AAAAAA'', RoleAck ''guest'' ''AAAAAA''],
                closes := [(1000, ''Replaced by new guest'')]\<rparr>,
         5 := fresh_sock\<lparr>role := Some ''guest'', session := Some ''AAAAAA'',
                sent := [RoleAck ''guest'' ''AAAAAA'']\<rparr>)\<rparr>"
  by (simp add: relay_swapped_def relay_hosted_eq relay_eval)

text \<open>
  An \<open>input\<close> message from a socket that has no session is not dropped silently: the
  sender is answered with the error frame \<open>NOT_IN_SESSION\<close>.
\<close>

theorem input_no_session_counterexample:
  "session (rsocks relay_init 4) = None
   \<and> sent (rsocks (relay_handleMessage relay_init 4 input_data 0) 4) = [ErrorFrame NOT_IN_SESSION]"
  by (rule input_no_session_eval)

text \<open>
  C9, as the relay behaves: an \<open>input\<close> message that passes the size and rate checks is
  answered with the error frame \<open>NOT_IN_SESSION\<close> when the sender has no session and
  with \<open>SESSION_NOT_FOUND\<close> when its session is not in the table, so it is not dropped
  silently there. From a sender whose session is in the table, it is dropped with no
  frame sent to anybody when the sender's recorded role is not guest. When the recorded
  role is guest, the target is the socket in the host slot, or the socket in the guest
  slot if the sender itself holds the host slot; the message is forwarded to the target
  and counted when there is one and it is open, and is dropped with no frame sent to
  anybody otherwise. In particular a guest that does not hold the host slot has its
  input dropped silently when the host slot is empty or its socket is not open, and
  forwarded to the host when the host is open.
\<close>

theorem input_routing:
  assumes "len d \<le> MAX_MESSAGE_SIZE" and "parsed d = Some (InputMsg p)"
    and "relay_checkRateLimit (relayLimits st) (remoteAddress (rsocks st ws)) now = Inr lims"
  shows
   "(falsy (session (rsocks st ws)) \<longrightarrow>
       relay_handleMessage st ws d now =
         relay_sendError (st\<lparr>relayLimits := lims\<rparr>) ws NOT_IN_SESSION)
    \<and> (session (rsocks st ws) = Some k \<and> k \<noteq> [] \<and> sessions st k = None \<longrightarrow>
       relay_handleMessage st ws d now =
         relay_sendError (st\<lparr>relayLimits := lims\<rparr>) ws SESSION_NOT_FOUND)
    \<and> (session (rsocks st ws) = Some k \<and> k \<noteq> [] \<and> sessions st k = Some s
        \<and> role (rsocks st ws) \<noteq> Some ''guest'' \<longrightarrow>
       relay_handleMessage st ws d now = st\<lparr>relayLimits := lims\<rparr>)
    \<and> (session (rsocks st ws) = Some k \<and> k \<noteq> [] \<and> sessions st k = Some s
        \<and> role (rsocks st ws) = Some ''guest'' \<and> rhost s \<noteq> Some ws
        \<and> (rhost s = None \<or> (\<exists>h. rhost s = Some h \<and> readyState (rsocks st h) \<noteq> OPEN)) \<longrightarrow>
       relay_handleMessage st ws d now = st\<lparr>relayLimits := lims\<rparr>)
    \<and> (session (rsocks st ws) = Some k \<and> k \<noteq> [] \<and> sessions st k = Some s
        \<and> role (rsocks st ws) = Some ''guest'' \<and> rhost s = Some h \<and> h \<noteq> ws
        \<and> readyState (rsocks st h) = OPEN \<longrightarrow>
       relay_handleMessage st ws d now =
         st\<lparr>relayLimits := lims,
            sessions := (sessions st)(k \<mapsto> s\<lparr>messageCount := messageCount s + 1, rlastActivity := now\<rparr>),
            rsocks := ws_send (rsocks st) h (InputFrame p)\<rparr>)
    \<and> (session (rsocks st ws) = Some k \<and> k \<noteq> [] \<and> sessions st k = Some s
        \<and> role (rsocks st ws) = Some ''guest'' \<longrightarrow>
       relay_handleMessage st ws d now =
         (case (if rhost s = Some ws then rguest s else rhost s) of
            None \<Rightarrow> st\<lparr>relayLimits := lims\<rparr>
          | Some t \<Rightarrow>
              if readyState (rsocks st t) = OPEN
              then st\<lparr>relayLimits := lims,
                      sessions := (sessions st)(k \<mapsto> s\<lparr>messageCount := messageCount s + 1, rlastActivity := now\<rparr>),
                      rsocks := ws_send (rsocks st) t (InputFrame p)\<rparr>
              else st\<lparr>relayLimits := lims\<rparr>))"
  unfolding input_admitted [OF assms]
  by (auto simp: handleInputMessage_def falsy_def forwardMessage_def Let_def map_upd_triv
      split: option.splits)


theorem input_routing_witness:
  "relay_handleMessage relay_paired 2 input_data 20 =
     relay_paired\<lparr>relayLimits := [''10.0.0.1'' \<mapsto> \<lparr>messages = [0, 10, 20], lastReset = 0\<rparr>]\<rparr>
   \<and> sent (rsocks (relay_handleMessage relay_paired 3 input_data 20) 2) =
       [RoleAck ''host'' ''AAAAAA'', InputFrame (Payload ''left'')]
   \<and> sent (rsocks (relay_handleMessage relay_paired 3 input_data 20) 3) =
       [RoleAck ''guest'' ''AAAAAA'']
   \<and> relay_handleMessage relay_guest_only 3 input_data 20 =
     relay_guest_only\<lparr>relayLimits := [''10.0.0.1'' \<mapsto> \<lparr>messages = [0, 20], lastReset = 0\<rparr>]\<rparr>
   \<and> sent (rsocks (relay_handleMessage relay_init 4 input_data 0) 4) = [ErrorFrame NOT_IN_SESSION]
   \<and> sent (rsocks (relay_handleMessage (relay_paired\<lparr>sessions := Map.empty\<rparr>) 3 input_data 20) 3) =
       [RoleAck ''guest'' ''AAAAAA'', ErrorFrame SESSION_NOT_FOUND]
   \<and> sent (rsocks (relay_handleMessage relay_swapped 2 input_data 30) 5) =
       [RoleAck ''guest'' ''AAAAAA'', InputFrame (Payload ''left'')]"
proof -
  let ?s = "\<lparr>roomCode = ''AAAAAA'', rhost = Some 2, rguest = Some 3,
          rcreatedAt = 0, rlastActivity = 10, messageCount = 0\<rparr>"
  let ?g = "\<lparr>roomCode = ''AAAAAA'', rhost = None, rguest = Some 3,
          rcreatedAt = 0, rlastActivity = 0, messageCount = 0\<rparr>"
  let ?l = "[''10.0.0.1'' \<mapsto> \<lparr>messages = [0, 10, 20], lastReset = 0\<rparr>]"
  let ?lg = "[''10.0.0.1'' \<mapsto> \<lparr>messages = [0, 20], lastReset = 0\<rparr>]"
  let ?lz = "[''10.0.0.1'' \<mapsto> \<lparr>messages = [0], lastReset = 0\<rparr>]"
  have d: "len input_data \<le> MAX_MESSAGE_SIZE" "parsed input_data = Some (InputMsg (Payload ''left''))"
    by (simp_all add: input_data_def MAX_MESSAGE_SIZE_def)
  have r: "relay_checkRateLimit (relayLimits relay_paired) (remoteAddress (rsocks relay_paired w)) 20 = Inr ?l" for w
    by (simp add: relay_paired_eq relay_checkRateLimit_def MAX_MESSAGES_PER_SECOND_def Let_def
        fresh_sock_def)
  have r': "relay_checkRateLimit (relayLimits (relay_paired\<lparr>sessions := Map.empty\<rparr>))
      (remoteAddress (rsocks (relay_paired\<lparr>sessions := Map.empty\<rparr>) 3)) 20 = Inr ?l"
    by (simp add: relay_paired_eq relay_checkRateLimit_def MAX_MESSAGES_PER_SECOND_def Let_def
        fresh_sock_def)
  have r1: "relay_checkRateLimit (relayLimits relay_guest_only)
      (remoteAddress (rsocks relay_guest_only 3)) 20 = Inr ?lg"
    by (simp add: relay_guest_only_eq relay_checkRateLimit_def MAX_MESSAGES_PER_SECOND_def Let_def
        fresh_sock_def)
  have r0: "relay_checkRateLimit (relayLimits relay_init) (remoteAddress (rsocks relay_init 4)) 0 = Inr ?lz"
    by (simp add: relay_init_def relay_checkRateLimit_def MAX_MESSAGES_PER_SECOND_def Let_def
        fresh_sock_def)
  have h2: "session (rsocks relay_paired 2) = Some ''AAAAAA'' \<and> ''AAAAAA'' \<noteq> []
      \<and> sessions relay_paired ''AAAAAA'' = Some ?s \<and> role (rsocks relay_paired 2) \<noteq> Some ''guest''"
    by (simp add: relay_paired_eq fresh_sock_def)
  have h3: "session (rsocks relay_paired 3) = Some ''AAAAAA'' \<and> ''AAAAAA'' \<noteq> []
      \<and> sessions relay_paired ''AAAAAA'' = Some ?s \<and> role (rsocks relay_paired 3) = Some ''guest''
      \<and> rhost ?s = Some 2 \<and> 2 \<noteq> (3::nat) \<and> readyState (rsocks relay_paired 2) = OPEN"
    by (simp add: relay_paired_eq fresh_sock_def)
  have hg: "session (rsocks relay_guest_only 3) = Some ''AAAAAA'' \<and> ''AAAAAA'' \<noteq> []
      \<and> sessions relay_guest_only ''AAAAAA'' = Some ?g
      \<and> role (rsocks relay_guest_only 3) = Some ''guest'' \<and> rhost ?g \<noteq> Some 3
      \<and> (rhost ?g = None \<or> (\<exists>h. rhost ?g = Some h \<and> readyState (rsocks relay_guest_only h) \<noteq> OPEN))"
    by (simp add: relay_guest_only_eq fresh_sock_def)
  have h0: "falsy (session (rsocks relay_init 4))"
    by (simp add: relay_init_def fresh_sock_def falsy_def)
  have hn: "session (rsocks (relay_paired\<lparr>sessions := Map.empty\<rparr>) 3) = Some ''AAAAAA'' \<and> ''AAAAAA'' \<noteq> []
      \<and> sessions (relay_paired\<lparr>sessions := Map.empty\<rparr>) ''AAAAAA'' = None"
    by (simp add: relay_paired_eq fresh_sock_def)
  from input_routing [OF d r [of 2], where k = "''AAAAAA''" and s = ?s] h2
  have c1: "relay_handleMessage relay_paired 2 input_data 20 = relay_paired\<lparr>relayLimits := ?l\<rparr>"
    by blast
  from input_routing [OF d r [of 3], where k = "''AAAAAA''" and s = ?s and h = 2] h3
  have "relay_handleMessage relay_paired 3 input_data 20 =
         relay_paired\<lparr>relayLimits := ?l,
            sessions := (sessions relay_paired)(''AAAAAA'' \<mapsto> ?s\<lparr>messageCount := messageCount ?s + 1, rlastActivity := 20\<rparr>),
            rsocks := ws_send (rsocks relay_paired) 2 (InputFrame (Payload ''left''))\<rparr>"
    by blast
  then have c2: "sent (rsocks (relay_handleMessage relay_paired 3 input_data 20) 2) =
       [RoleAck ''host'' ''AAAAAA'', InputFrame (Payload ''left'')]"
    and c3: "sent (rsocks (relay_handleMessage relay_paired 3 input_data 20) 3) =
       [RoleAck ''guest'' ''AAAAAA'']"
    by (simp_all add: relay_paired_eq ws_send_def fresh_sock_def)
  from input_routing [OF d r1, where k = "''AAAAAA''" and s = ?g] hg
  have c4: "relay_handleMessage relay_guest_only 3 input_data 20 = relay_guest_only\<lparr>relayLimits := ?lg\<rparr>"
    by blast
  from input_routing [OF d r0] h0
  have "relay_handleMessage relay_init 4 input_data 0 =
         relay_sendError (relay_init\<lparr>relayLimits := ?lz\<rparr>) 4 NOT_IN_SESSION"
    by blast
  then have c5: "sent (rsocks (relay_handleMessage relay_init 4 input_data 0) 4) = [ErrorFrame NOT_IN_SESSION]"
    by (simp add: relay_sendError_def relay_init_def fresh_sock_def ws_send_def)
  from input_routing [OF d r', where k = "''AAAAAA''"] hn
  have "relay_handleMessage (relay_paired\<lparr>sessions := Map.empty\<rparr>) 3 input_data 20 =
         relay_sendError (relay_paired\<lparr>sessions := Map.empty\<rparr>\<lparr>relayLimits := ?l\<rparr>) 3 SESSION_NOT_FOUND"
    by blast
  then have c6: "sent (rsocks (relay_handleMessage (relay_paired\<lparr>sessions := Map.empty\<rparr>) 3 input_data 20) 3) =
       [RoleAck ''guest'' ''AAAAAA'', ErrorFrame SESSION_NOT_FOUND]"
    by (simp add: relay_sendError_def relay_paired_eq fresh_sock_def ws_send_def)
  let ?w = "\<lparr>roomCode = ''AAAAAA'', rhost = Some 2, rguest = Some 5,
          rcreatedAt = 0, rlastActivity = 20, messageCount = 0\<rparr>"
  let ?lw = "[''10.0.0.1'' \<mapsto> \<lparr>messages = [0, 10, 20, 30], lastReset = 0\<rparr>]"
  have rw: "relay_checkRateLimit (relayLimits relay_swapped)
      (remoteAddress (rsocks relay_swapped 2)) 30 = Inr ?lw"
    by (simp add: relay_swapped_eq relay_checkRateLimit_def MAX_MESSAGES_PER_SECOND_def Let_def
        fresh_sock_def)
  have hw: "session (rsocks relay_swapped 2) = Some ''AAAAAA'' \<and> ''AAAAAA'' \<noteq> []
      \<and> sessions relay_swapped ''AAAAAA'' = Some ?w \<and> role (rsocks relay_swapped 2) = Some ''guest''"
    by (simp add: relay_swapped_eq fresh_sock_def)
  note x = input_routing [OF d rw, where k = "''AAAAAA''" and s = ?w]
  from x [THEN conjunct2, THEN conjunct2, THEN conjunct2, THEN conjunct2, THEN conjunct2,
      THEN mp, OF hw]
  have "relay_handleMessage relay_swapped 2 input_data 30 =
         (case (if rhost ?w = Some 2 then rguest ?w else rhost ?w) of
            None \<Rightarrow> relay_swapped\<lparr>relayLimits := ?lw\<rparr>
          | Some t \<Rightarrow>
              if readyState (rsocks relay_swapped t) = OPEN
              then relay_swapped\<lparr>relayLimits := ?lw,
                      sessions := (sessions relay_swapped)(''AAAAAA'' \<mapsto> ?w\<lparr>messageCount := messageCount ?w + 1, rlastActivity := 30\<rparr>),
                      rsocks := ws_send (rsocks relay_swapped) t (InputFrame (Payload ''left''))\<rparr>
              else relay_swapped\<lparr>relayLimits := ?lw\<rparr>)" .
  then have c7: "sent (rsocks (relay_handleMessage relay_swapped 2 input_data 30) 5) =
       [RoleAck ''guest'' ''AAAAAA'', InputFrame (Payload ''left'')]"
    by (simp add: relay_swapped_eq ws_send_def fresh_sock_def)
  from c1 c2 c3 c4 c5 c6 c7 show ?thesis by (intro conjI)
qed


subsection \<open>The rate limit\<close>

lemma keep_ws_send [simp]: "remoteAddress (ws_send ss w f x) = remoteAddress (ss x)"
  by (simp add: ws_send_def)

lemma keep_ws_close [simp]: "remoteAddress (ws_close ss w c r x) = remoteAddress (ss x)"
  by (simp add: ws_close_def)

lemma keep_sendError [simp]:
  "remoteAddress (rsocks (relay_sendError st w e) x) = remoteAddress (rsocks st x)"
  "relayLimits (relay_sendError st w e) = relayLimits st"
  by (simp_all add: relay_sendError_def)

lemma keep_forwardMessage:
  "forwardMessage s ss w f now = (b, s', ss') \<Longrightarrow> remoteAddress (ss' x) = remoteAddress (ss x)"
  by (auto simp: forwardMessage_def Let_def split: option.splits if_splits)

lemma keep_addPlayer:
  "RelaySession_addPlayer s ss w rl now = (s', ss') \<Longrightarrow>
     remoteAddress (ss' x) = remoteAddress (ss x)"
  by (auto simp: RelaySession_addPlayer_def Let_def split: option.splits if_splits)

lemma keep_handleRoleMessage:
  "handleRoleMessage st w rl rm now = Inl (e, st') \<Longrightarrow> st' = st \<and> e \<in> dispatch_errors"
  "handleRoleMessage st w rl rm now = Inr st' \<Longrightarrow>
     relayLimits st' = relayLimits st \<and> remoteAddress (rsocks st' x) = remoteAddress (rsocks st x)"
  by (auto simp: handleRoleMessage_def Let_def dispatch_errors_def
      split: if_splits prod.splits dest: keep_addPlayer)

lemma keep_handleInputMessage:
  "handleInputMessage st w p now = Inl (e, st') \<Longrightarrow> st' = st \<and> e \<in> dispatch_errors"
  "handleInputMessage st w p now = Inr st' \<Longrightarrow>
     relayLimits st' = relayLimits st \<and> remoteAddress (rsocks st' x) = remoteAddress (rsocks st x)"
  by (auto simp: handleInputMessage_def Let_def dispatch_errors_def
      split: if_splits option.splits prod.splits dest: keep_forwardMessage)

lemma keep_handleStateMessage:
  "handleStateMessage st w p now = Inl (e, st') \<Longrightarrow> st' = st \<and> e \<in> dispatch_errors"
  "handleStateMessage st w p now = Inr st' \<Longrightarrow>
     relayLimits st' = relayLimits st \<and> remoteAddress (rsocks st' x) = remoteAddress (rsocks st x)"
  by (auto simp: handleStateMessage_def Let_def dispatch_errors_def
      split: if_splits option.splits prod.splits dest: keep_forwardMessage)

lemma keep_handlePingMessage:
  "relayLimits (handlePingMessage st w now) = relayLimits st"
  "remoteAddress (rsocks (handlePingMessage st w now) x) = remoteAddress (rsocks st x)"
  by (auto simp: handlePingMessage_def Let_def split: option.splits)

text \<open>After the rate limit has admitted a message, nothing touches the rate-limit table.\<close>

lemma relay_try_admitted_keeps:
  assumes "len d \<le> MAX_MESSAGE_SIZE"
    and "relay_checkRateLimit (relayLimits st) (remoteAddress (rsocks st w)) now = Inr lims"
  shows "(\<forall>e st'. relay_try st w d now = Inl (e, st') \<longrightarrow>
            e \<in> dispatch_errors \<and> relayLimits st' = lims
            \<and> (\<forall>x. remoteAddress (rsocks st' x) = remoteAddress (rsocks st x)))
       \<and> (\<forall>st'. relay_try st w d now = Inr st' \<longrightarrow>
            relayLimits st' = lims
            \<and> (\<forall>x. remoteAddress (rsocks st' x) = remoteAddress (rsocks st x)))"
proof (cases "parsed d")
  case None
  then show ?thesis using assms by (simp add: relay_try_admitted dispatch_errors_def)
next
  case (Some m)
  show ?thesis
  proof (cases m)
    case (RoleMsg rl rm)
    then show ?thesis using assms Some
      by (auto simp: relay_try_admitted dest: keep_handleRoleMessage)
  next
    case (InputMsg p)
    then show ?thesis using assms Some
      by (auto simp: relay_try_admitted dest: keep_handleInputMessage)
  next
    case (StateMsg p)
    then show ?thesis using assms Some
      by (auto simp: relay_try_admitted dest: keep_handleStateMessage)
  next
    case PingMsg
    then show ?thesis using assms Some
      by (simp add: relay_try_admitted keep_handlePingMessage)
  next
    case RelayUnknown
    then show ?thesis using assms Some by (simp add: relay_try_admitted)
  qed
qed

lemma relay_handleMessage_admitted:
  assumes "len d \<le> MAX_MESSAGE_SIZE"
    and "relay_checkRateLimit (relayLimits st) (remoteAddress (rsocks st w)) now = Inr lims"
  shows "relayLimits (relay_handleMessage st w d now) = lims"
    and "remoteAddress (rsocks (relay_handleMessage st w d now) x) = remoteAddress (rsocks st x)"
    and "(case relay_try st w d now of Inl (e, st') \<Rightarrow> Some e | Inr st' \<Rightarrow> None) \<noteq> Some RATE_LIMITED"
    and "(case relay_try st w d now of Inl (e, st') \<Rightarrow> Some e | Inr st' \<Rightarrow> None) \<noteq> Some MESSAGE_TOO_LARGE"
  using relay_try_admitted_keeps [OF assms]
  by (auto simp: relay_handleMessage_def dispatch_errors_def split: sum.splits prod.splits)

lemma window_open:
  assumes "rl ip = None \<or> (\<exists>l. rl ip = Some l \<and> t0 - lastReset l \<ge> 1000)"
  shows "relay_checkRateLimit rl ip t0 = Inr (rl(ip \<mapsto> \<lparr>messages = [t0], lastReset = t0\<rparr>))"
  using assms
  by (auto simp: relay_checkRateLimit_def Let_def MAX_MESSAGES_PER_SECOND_def)

lemma window_step:
  assumes "rl ip = Some l" "t - lastReset l < 1000" "length (messages l) < 60"
  shows "relay_checkRateLimit rl ip t = Inr (rl(ip \<mapsto> l\<lparr>messages := messages l @ [t]\<rparr>))"
  using assms
  by (auto simp: relay_checkRateLimit_def Let_def MAX_MESSAGES_PER_SECOND_def)

lemma window_full:
  assumes "rl ip = Some l" "t - lastReset l < 1000" "length (messages l) \<ge> 60"
  shows "relay_checkRateLimit rl ip t = Inl (RATE_LIMITED, rl)"
  using assms
  by (auto simp: relay_checkRateLimit_def Let_def MAX_MESSAGES_PER_SECOND_def map_upd_triv)

lemma window_run:
  assumes "relayLimits st ip = Some l" "lastReset l = t0"
    and "length (messages l) + length evs \<le> 60"
    and "\<forall>(w, d, t) \<in> set evs.
           remoteAddress (rsocks st w) = ip \<and> len d \<le> MAX_MESSAGE_SIZE \<and> t - t0 < 1000"
  shows "(\<exists>l'. relayLimits (relay_run st evs) ip = Some l' \<and> lastReset l' = t0
            \<and> length (messages l') = length (messages l) + length evs)
       \<and> (\<forall>x. remoteAddress (rsocks (relay_run st evs) x) = remoteAddress (rsocks st x))
       \<and> (\<forall>out \<in> set (relay_outcomes st evs).
            out \<noteq> Some RATE_LIMITED \<and> out \<noteq> Some MESSAGE_TOO_LARGE)"
  using assms
proof (induction evs arbitrary: st l)
  case Nil
  then show ?case by simp
next
  case (Cons ev evs)
  obtain w d t where ev: "ev = (w, d, t)" by (cases ev)
  from Cons.prems(4) ev have w: "remoteAddress (rsocks st w) = ip"
    and d: "len d \<le> MAX_MESSAGE_SIZE" and t: "t - t0 < 1000"
    by auto
  let ?l = "l\<lparr>messages := messages l @ [t]\<rparr>"
  let ?st = "relay_handleMessage st w d t"
  from Cons.prems(1,2,3) t
  have adm: "relay_checkRateLimit (relayLimits st) (remoteAddress (rsocks st w)) t =
      Inr ((relayLimits st)(ip \<mapsto> ?l))"
    unfolding w by (intro window_step) simp_all
  note k = relay_handleMessage_admitted [OF d adm]
  have a: "relayLimits ?st ip = Some ?l" by (simp add: k(1))
  have b: "lastReset ?l = t0" using Cons.prems(2) by simp
  have c: "length (messages ?l) + length evs \<le> 60" using Cons.prems(3) by simp
  have e: "\<forall>(w, d, t) \<in> set evs.
           remoteAddress (rsocks ?st w) = ip \<and> len d \<le> MAX_MESSAGE_SIZE \<and> t - t0 < 1000"
    using Cons.prems(4) by (auto simp: k(2))
  from Cons.IH [OF a b c e] k(2,3,4) show ?case by (simp add: ev)
qed

lemma fresh_window_run:
  assumes "length evs \<le> 59"
    and "relayLimits st ip = None \<or> (\<exists>l. relayLimits st ip = Some l \<and> t0 - lastReset l \<ge> 1000)"
    and "remoteAddress (rsocks st w0) = ip" and "len d0 \<le> MAX_MESSAGE_SIZE"
    and "\<forall>(w, d, t) \<in> set evs.
           remoteAddress (rsocks st w) = ip \<and> len d \<le> MAX_MESSAGE_SIZE \<and> t - t0 < 1000"
  shows "(\<exists>l'. relayLimits (relay_run st ((w0, d0, t0) # evs)) ip = Some l' \<and> lastReset l' = t0
            \<and> length (messages l') = 1 + length evs)
       \<and> (\<forall>x. remoteAddress (rsocks (relay_run st ((w0, d0, t0) # evs)) x) =
                remoteAddress (rsocks st x))
       \<and> (\<forall>out \<in> set (relay_outcomes st ((w0, d0, t0) # evs)).
            out \<noteq> Some RATE_LIMITED \<and> out \<noteq> Some MESSAGE_TOO_LARGE)"
proof -
  let ?l = "\<lparr>messages = [t0], lastReset = t0\<rparr>"
  let ?st = "relay_handleMessage st w0 d0 t0"
  have adm: "relay_checkRateLimit (relayLimits st) (remoteAddress (rsocks st w0)) t0 =
      Inr ((relayLimits st)(ip \<mapsto> ?l))"
    unfolding assms(3) by (rule window_open) (rule assms(2))
  note k = relay_handleMessage_admitted [OF assms(4) adm]
  have a: "relayLimits ?st ip = Some ?l" by (simp add: k(1))
  have c: "length (messages ?l) + length evs \<le> 60" using assms(1) by simp
  have e: "\<forall>(w, d, t) \<in> set evs.
           remoteAddress (rsocks ?st w) = ip \<and> len d \<le> MAX_MESSAGE_SIZE \<and> t - t0 < 1000"
    using assms(5) by (auto simp: k(2))
  from window_run [OF a _ c e] k(2,3,4) show ?thesis by simp
qed

lemma length_relay_outcomes: "length (relay_outcomes st evs) = length evs"
  by (induction evs arbitrary: st) auto

lemma relay_outcomes_append:
  "relay_outcomes st (xs @ ys) = relay_outcomes st xs @ relay_outcomes (relay_run st xs) ys"
  by (induction xs arbitrary: st) auto

lemma relay_run_append: "relay_run st (xs @ ys) = relay_run (relay_run st xs) ys"
  by (induction xs arbitrary: st) auto

lemma ping_outcomes:
  assumes "\<forall>(w, d, t) \<in> set evs. parsed d = Some PingMsg"
  shows "set (relay_outcomes st evs) \<subseteq> {None, Some RATE_LIMITED, Some MESSAGE_TOO_LARGE}"
  using assms
proof (induction evs arbitrary: st)
  case Nil
  then show ?case by simp
next
  case (Cons ev evs)
  obtain w d t where ev: "ev = (w, d, t)" by (cases ev)
  from Cons.prems ev have p: "parsed d = Some PingMsg" by simp
  have "(case relay_try st w d t of Inl (e, st') \<Rightarrow> Some e | Inr st' \<Rightarrow> None)
          \<in> {None, Some RATE_LIMITED, Some MESSAGE_TOO_LARGE}"
    using p relay_checkRateLimit_Inl
    by (auto simp: relay_try_def Let_def split: sum.splits prod.splits)
  moreover have "set (relay_outcomes (relay_handleMessage st w d t) evs)
      \<subseteq> {None, Some RATE_LIMITED, Some MESSAGE_TOO_LARGE}"
    using Cons by simp
  ultimately show ?case by (simp add: ev)
qed

lemma admitted_pings_None:
  assumes "\<forall>(w, d, t) \<in> set evs. parsed d = Some PingMsg"
    and "\<forall>out \<in> set (relay_outcomes st evs). out \<noteq> Some RATE_LIMITED \<and> out \<noteq> Some MESSAGE_TOO_LARGE"
  shows "relay_outcomes st evs = replicate (length evs) None"
proof -
  have "\<forall>out \<in> set (relay_outcomes st evs). out = None"
    using ping_outcomes [OF assms(1), of st] assms(2) by blast
  then have "replicate (length (relay_outcomes st evs)) None = relay_outcomes st evs"
    by (intro replicate_length_same) simp
  then show ?thesis by (simp add: length_relay_outcomes)
qed

lemma relay_pinged_limits:
  "relayLimits relay_pinged ''10.0.0.1'' = Some \<lparr>messages = [0], lastReset = 0\<rparr>"
  "remoteAddress (rsocks relay_pinged x) = ''10.0.0.1''"
  by (simp_all add: relay_pinged_def relay_init_def relay_eval)

lemma burst_all_admitted:
  "length burst = 61 \<and> relay_outcomes relay_pinged burst = replicate 61 None"
proof -
  let ?e1 = "replicate 30 (2::nat, ping_data, 500::int)"
  let ?e2 = "replicate 30 (2::nat, ping_data, 1000::int)"
  let ?st1 = "relay_run relay_pinged ?e1"
  have d: "len ping_data \<le> MAX_MESSAGE_SIZE" by (simp add: ping_data_def MAX_MESSAGE_SIZE_def)
  have p: "parsed ping_data = Some PingMsg" by (simp add: ping_data_def)
  have b: "burst = ?e1 @ ((2, ping_data, 1000) # ?e2)"
    by (simp add: burst_def replicate_Suc [symmetric] del: replicate_Suc)
  have h1: "\<forall>(w, d, t) \<in> set ?e1.
      remoteAddress (rsocks relay_pinged w) = ''10.0.0.1'' \<and> len d \<le> MAX_MESSAGE_SIZE \<and> t - 0 < 1000"
    using d by (simp add: relay_pinged_limits)
  from window_run [OF relay_pinged_limits(1) _ _ h1]
  obtain l1 where l1: "relayLimits ?st1 ''10.0.0.1'' = Some l1" "lastReset l1 = 0"
    and a1: "\<forall>x. remoteAddress (rsocks ?st1 x) = remoteAddress (rsocks relay_pinged x)"
    and o1: "\<forall>out \<in> set (relay_outcomes relay_pinged ?e1).
            out \<noteq> Some RATE_LIMITED \<and> out \<noteq> Some MESSAGE_TOO_LARGE"
    by auto
  have r1: "relay_outcomes relay_pinged ?e1 = replicate 30 None"
    using admitted_pings_None [OF _ o1] p by simp
  have fresh: "relayLimits ?st1 ''10.0.0.1'' = None
      \<or> (\<exists>l. relayLimits ?st1 ''10.0.0.1'' = Some l \<and> 1000 - lastReset l \<ge> 1000)"
    using l1 by simp
  have ad: "remoteAddress (rsocks ?st1 2) = ''10.0.0.1''"
    using a1 by (simp add: relay_pinged_limits)
  have h2: "\<forall>(w, d, t) \<in> set ?e2.
      remoteAddress (rsocks ?st1 w) = ''10.0.0.1'' \<and> len d \<le> MAX_MESSAGE_SIZE \<and> t - 1000 < 1000"
    using d ad by simp
  have le: "length ?e2 \<le> 59" by simp
  from fresh_window_run [OF le fresh ad d h2]
  have o2: "\<forall>out \<in> set (relay_outcomes ?st1 ((2, ping_data, 1000) # ?e2)).
            out \<noteq> Some RATE_LIMITED \<and> out \<noteq> Some MESSAGE_TOO_LARGE"
    by blast
  have r2: "relay_outcomes ?st1 ((2, ping_data, 1000) # ?e2) = replicate 31 None"
    using admitted_pings_None [OF _ o2] p by simp
  have "relay_outcomes relay_pinged burst = replicate 30 None @ replicate 31 None"
    unfolding b relay_outcomes_append r1 r2 ..
  then have "relay_outcomes relay_pinged burst = replicate 61 None"
    by (simp add: replicate_add [symmetric])
  moreover have "length burst = 61" by (simp add: burst_def)
  ultimately show ?thesis by simp
qed

text \<open>
  Sixty-one messages of one address within half a second are all handled when the
  second of the window that was open at the first of them ends during the burst: after
  one ping at time 0, thirty pings at time 500 and thirty-one at time 1000 are answered
  without any error, the sixty-first included.
\<close>

theorem burst_across_reset_counterexample:
  "length burst = 61 \<and> relay_outcomes relay_pinged burst = replicate 61 None"
  by (rule burst_all_admitted)

text \<open>
  C7, as the relay counts: when the first of sixty-one messages of one address opens a
  window (the address has no entry, or its last reset is a second old) and the others
  arrive less than 1000 ms after it, all within the size limit, the first sixty pass the
  rate limit and the sixty-first is rejected with \<open>RATE_LIMITED\<close>; its sender, if open,
  is sent the error frame, its socket is not closed, and nothing else changes.
\<close>

theorem rate_limit_sixty_per_window:
  assumes "length evs = 59"
    and "relayLimits st ip = None \<or> (\<exists>l. relayLimits st ip = Some l \<and> t0 - lastReset l \<ge> 1000)"
    and "remoteAddress (rsocks st w0) = ip" and "len d0 \<le> MAX_MESSAGE_SIZE"
    and "\<forall>(w, d, t) \<in> set evs.
           remoteAddress (rsocks st w) = ip \<and> len d \<le> MAX_MESSAGE_SIZE \<and> t - t0 < 1000"
    and "remoteAddress (rsocks st w) = ip" and "len d \<le> MAX_MESSAGE_SIZE" and "t - t0 < 1000"
    and "st' = relay_run st ((w0, d0, t0) # evs)"
  shows "(\<forall>out \<in> set (relay_outcomes st ((w0, d0, t0) # evs)).
            out \<noteq> Some RATE_LIMITED \<and> out \<noteq> Some MESSAGE_TOO_LARGE)
       \<and> length (relay_outcomes st ((w0, d0, t0) # evs)) = 60
       \<and> relay_try st' w d t = Inl (RATE_LIMITED, st')
       \<and> (readyState (rsocks st' w) = OPEN \<longrightarrow>
            relay_handleMessage st' w d t =
              st'\<lparr>rsocks := ws_send (rsocks st') w (ErrorFrame RATE_LIMITED)\<rparr>)
       \<and> closes (rsocks (relay_handleMessage st' w d t) w) = closes (rsocks st' w)
       \<and> readyState (rsocks (relay_handleMessage st' w d t) w) = readyState (rsocks st' w)
       \<and> sessions (relay_handleMessage st' w d t) = sessions st'"
proof -
  have le: "length evs \<le> 59" using assms(1) by simp
  from fresh_window_run [OF le assms(2,3,4,5)] assms(1)
  obtain l' where l': "relayLimits st' ip = Some l'" "lastReset l' = t0"
      "length (messages l') = 60"
    and addr: "\<forall>x. remoteAddress (rsocks st' x) = remoteAddress (rsocks st x)"
    and outs: "\<forall>out \<in> set (relay_outcomes st ((w0, d0, t0) # evs)).
            out \<noteq> Some RATE_LIMITED \<and> out \<noteq> Some MESSAGE_TOO_LARGE"
    unfolding assms(9) by auto
  have ip: "remoteAddress (rsocks st' w) = ip" using addr assms(6) by simp
  have full: "relay_checkRateLimit (relayLimits st') (remoteAddress (rsocks st' w)) t =
      Inl (RATE_LIMITED, relayLimits st')"
    unfolding ip using l' assms(8) by (intro window_full [where l = l']) simp_all
  have rej: "relay_try st' w d t = Inl (RATE_LIMITED, st')"
    using assms(7) full by (simp add: relay_try_def)
  have 2: "length (relay_outcomes st ((w0, d0, t0) # evs)) = 60"
    using assms(1) by (simp add: length_relay_outcomes)
  have h: "relay_handleMessage st' w d t = relay_sendError st' w RATE_LIMITED"
    by (simp add: relay_handleMessage_def rej)
  show ?thesis using outs 2 rej
    by (simp add: h relay_sendError_def ws_send_def)
qed

theorem rate_limit_sixty_per_window_witness:
  "length (relay_outcomes relay_init sixty_pings) = 60
   \<and> relay_try (relay_run relay_init sixty_pings) 2 ping_data 999 =
       Inl (RATE_LIMITED, relay_run relay_init sixty_pings)
   \<and> sessions (relay_handleMessage (relay_run relay_init sixty_pings) 2 ping_data 999) =
       sessions (relay_run relay_init sixty_pings)"
proof -
  have a: "length (replicate 59 (2::nat, ping_data, 500::int)) = 59" by simp
  have b: "relayLimits relay_init ''10.0.0.1'' = None
      \<or> (\<exists>l. relayLimits relay_init ''10.0.0.1'' = Some l \<and> 0 - lastReset l \<ge> 1000)"
    by (simp add: relay_init_def)
  have c: "remoteAddress (rsocks relay_init 2) = ''10.0.0.1''"
    by (simp add: relay_init_def fresh_sock_def)
  have d: "len ping_data \<le> MAX_MESSAGE_SIZE" by (simp add: ping_data_def MAX_MESSAGE_SIZE_def)
  have e: "\<forall>(w, d, t) \<in> set (replicate 59 (2::nat, ping_data, 500::int)).
           remoteAddress (rsocks relay_init w) = ''10.0.0.1'' \<and> len d \<le> MAX_MESSAGE_SIZE
           \<and> t - 0 < 1000"
    using c d by simp
  have f: "(999::int) - 0 < 1000" by simp
  from rate_limit_sixty_per_window [OF a b c d e c d f refl]
  show ?thesis unfolding sixty_pings_def by blast
qed


section \<open>Properties of the client\<close>

subsection \<open>Relay reconnection\<close>












text \<open>
  The cleanup of the networking hook cancels the reconnect timer that a close has set and
  zeroes the attempt counter; the effect, run for a render without a connection type,
  then opens a relay socket at once.
\<close>

lemma cleanup_cancels_reconnect:
  "reconnectTimer (net_cleanup (relay_ws_onclose r c)) = None
   \<and> reconnectAttempts (net_cleanup (relay_ws_onclose r c)) = 0
   \<and> (r_connectionType rv = None \<and> \<not> falsy (r_role rv) \<and> \<not> falsy (r_roomCode rv) \<longrightarrow>
        relaySockets (connection_effect rv (net_cleanup (relay_ws_onclose r c))) = relaySockets c + 1)"
  by (auto simp: net_cleanup_def relay_disconnect_def webrtc_close_def clear_timeout_def
      relay_ws_onclose_def connectionLost_def connection_effect_def initiateRelayFallback_def
      relay_connect_def split: option.splits)

subsection \<open>The stability timer\<close>

lemma stability_timer_keeps_relay:
  "wsRef (stability_timer_callback c) = wsRef c"
  "relayCloses (stability_timer_callback c) = relayCloses c"
  "relaySockets (stability_timer_callback c) = relaySockets c"
  by (simp_all add: stability_timer_callback_def)

lemma ice_connected_fields:
  "stabilityTimer (oniceconnectionstatechange IceConnected c) = Some 5000"
  "connectionType (oniceconnectionstatechange IceConnected c) = Some WebRTC"
  "wsRef (oniceconnectionstatechange IceConnected c) = wsRef c"
  "relayCloses (oniceconnectionstatechange IceConnected c) = relayCloses c"
  by (simp_all add: oniceconnectionstatechange_def connectionEstablished_def RECONNECT_TIMEOUT_def)

text \<open>
  While the data channel is not open, an input or a snapshot that passes the rate check
  goes over the relay socket if that is open.
\<close>

lemma sendInput_over_relay:
  assumes "r_role rv = Some ''guest''" and "wsRef c = Some OPEN"
    and "dataChannelRef c \<noteq> Some ChanOpen" and "INPUT_RATE \<le> now - lastInputRef c"
  shows "relayLog (sendInput rv p now c) = relayLog c @ [InputMessage (sequenceRef c + 1) now p]"
  using assms
  by (simp add: sendInput_def webrtc_sendGameMessage_def relay_sendGameMessage_def Let_def)

lemma sendSnapshot_over_relay:
  assumes "r_role rv = Some ''host''" and "wsRef c = Some OPEN"
    and "dataChannelRef c \<noteq> Some ChanOpen" and "SNAPSHOT_RATE \<le> now - lastSnapshotRef c"
  shows "relayLog (sendSnapshot rv p now c) = relayLog c @ [StateMessage (sequenceRef c + 1) now p]"
  using assms
  by (simp add: sendSnapshot_def webrtc_sendGameMessage_def relay_sendGameMessage_def Let_def)

text \<open>The cleanup, which closes the relay socket, closes the WebRTC connection with it.\<close>

lemma net_cleanup_closes_both:
  "wsRef (net_cleanup c) = None \<and> dataChannelRef (net_cleanup c) = None \<and> \<not> pcRef (net_cleanup c)"
  by (simp add: net_cleanup_def relay_disconnect_def webrtc_close_def clear_timeout_def
      split: option.splits)




subsection \<open>The WebRTC timeout\<close>











end
